theory Spec2Isabelle
  imports Main
begin

section \<open>Python values, exceptions and text\<close>

text \<open>
  The pipeline passes feed entries and language-model answers around as Python
  dictionaries whose values are not validated. A value is therefore modelled by the
  datatype \<open>pyval\<close>: \<open>None\<close>, booleans, integers, strings, lists and dictionaries
  (association lists in insertion order, keys distinct). JSON numbers are modelled as
  integers; floating-point values are outside the embedding, except for the two
  comparisons of a parsed magnitude with a threshold, which are modelled exactly below.

  Text is ASCII: one \<open>char\<close> per code point. Code points above 127 are outside the
  model (on them \<open>lower\<close> and the character classes below are the identity resp. false).

  An exception is a value of \<open>pyerr\<close>; a function that may raise returns
  \<open>pyerr + 'a\<close>, with \<open>Inl\<close> for the exception.
\<close>

datatype pyval =
    PNone
  | PBool bool
  | PInt int
  | PStr string
  | PList "pyval list"
  | PDict "(string \<times> pyval) list"

datatype pyerr = AttributeError | TypeError | KeyError | ValueError | RecursionError | OtherError

text \<open>Truthiness, as \<open>if x:\<close> and \<open>not x\<close> evaluate it.\<close>

fun truthy :: "pyval \<Rightarrow> bool" where
  "truthy PNone = False"
| "truthy (PBool b) = b"
| "truthy (PInt i) = (i \<noteq> 0)"
| "truthy (PStr s) = (s \<noteq> [])"
| "truthy (PList l) = (l \<noteq> [])"
| "truthy (PDict d) = (d \<noteq> [])"

text \<open>\<open>d.get(k, default)\<close> and \<open>k in d\<close> on a dictionary.\<close>

definition dict_get :: "(string \<times> pyval) list \<Rightarrow> string \<Rightarrow> pyval \<Rightarrow> pyval" where
  "dict_get d k dflt = (case map_of d k of None \<Rightarrow> dflt | Some v \<Rightarrow> v)"

definition has_key :: "(string \<times> pyval) list \<Rightarrow> string \<Rightarrow> bool" where
  "has_key d k = (map_of d k \<noteq> None)"

subsection \<open>Characters and strings\<close>

definition is_upper :: "char \<Rightarrow> bool" where
  "is_upper c = ((65::nat) \<le> of_char c \<and> of_char c \<le> (90::nat))"

definition is_lower :: "char \<Rightarrow> bool" where
  "is_lower c = ((97::nat) \<le> of_char c \<and> of_char c \<le> (122::nat))"

definition is_digit :: "char \<Rightarrow> bool" where
  "is_digit c = ((48::nat) \<le> of_char c \<and> of_char c \<le> (57::nat))"

text \<open>
  The whitespace of \<open>\s\<close> and \<open>str.isspace\<close> within ASCII: tab, line feed, vertical
  tab, form feed, carriage return, the four separators 28..31 and the space.
\<close>

definition is_space :: "char \<Rightarrow> bool" where
  "is_space c = (((9::nat) \<le> of_char c \<and> of_char c \<le> (13::nat))
               \<or> ((28::nat) \<le> of_char c \<and> of_char c \<le> (32::nat)))"

definition lower_char :: "char \<Rightarrow> char" where
  "lower_char c = (if is_upper c then char_of (of_char c + (32::nat)) else c)"

definition upper_char :: "char \<Rightarrow> char" where
  "upper_char c = (if is_lower c then char_of (of_char c - (32::nat)) else c)"

definition lower :: "string \<Rightarrow> string" where
  "lower s = map lower_char s"

text \<open>\<open>str.capitalize\<close>: the first character upper-cased, the others lower-cased.\<close>

fun capitalize :: "string \<Rightarrow> string" where
  "capitalize [] = []"
| "capitalize (c # cs) = upper_char c # lower cs"

fun startswith :: "string \<Rightarrow> string \<Rightarrow> bool" where
  "startswith s [] = True"
| "startswith [] (p # ps) = False"
| "startswith (c # cs) (p # ps) = (c = p \<and> startswith cs ps)"

text \<open>\<open>sub in s\<close> for strings.\<close>

fun contains :: "string \<Rightarrow> string \<Rightarrow> bool" where
  "contains sub [] = (sub = [])"
| "contains sub (c # cs) = (startswith (c # cs) sub \<or> contains sub cs)"

text \<open>\<open>s.replace(a, b)\<close> for a single character \<open>a\<close>.\<close>

definition replace_char :: "char \<Rightarrow> string \<Rightarrow> string \<Rightarrow> string" where
  "replace_char a b s = concat (map (\<lambda>c. if c = a then b else [c]) s)"

text \<open>\<open>str.isdigit\<close>: non-empty and all digits.\<close>

definition isdigit :: "string \<Rightarrow> bool" where
  "isdigit s = (s \<noteq> [] \<and> list_all is_digit s)"

subsection \<open>Regular expressions\<close>

text \<open>
  The patterns of the source are kept as data and run by a backtracking matcher with
  the priorities of Python's \<open>re\<close>: alternatives left to right, repetitions greedy.
  The matcher returns every way to match, best first; \<open>re.match\<close> takes the first.
  A state is the number of characters consumed, the text still to read and the groups
  captured so far.
\<close>

datatype cls = Digit | Space | Range char char | OneOf string

fun in_cls :: "cls \<Rightarrow> char \<Rightarrow> bool" where
  "in_cls Digit c = is_digit c"
| "in_cls Space c = is_space c"
| "in_cls (Range a b) c = ((of_char a :: nat) \<le> of_char c \<and> (of_char c :: nat) \<le> of_char b)"
| "in_cls (OneOf s) c = (c \<in> set s)"

datatype rx =
    Eps
  | Bol
  | Lit char
  | Exact char
  | Cls cls
  | Many cls nat "nat option"
  | Seq rx rx
  | Alt rx rx
  | Opt rx
  | Grp string rx

text \<open>
  \<open>Bol\<close> is \<open>^\<close>; \<open>Lit c\<close> is the character \<open>c\<close> under the flag of the search
  (case-insensitive when \<open>ic\<close>); \<open>Exact c\<close> is \<open>(?-i:c)\<close>; \<open>Many k lo hi\<close> is a
  greedy repetition of a character class (\<open>*\<close>, \<open>+\<close>, \<open>{lo,hi}\<close>); \<open>Opt r\<close> is
  \<open>r?\<close>; \<open>Grp n r\<close> is the group named \<open>n\<close>.
\<close>

type_synonym mstate = "nat \<times> string \<times> (string \<times> string) list"

definition many_results :: "cls \<Rightarrow> nat \<Rightarrow> nat option \<Rightarrow> mstate \<Rightarrow> mstate list" where
  "many_results k lo hi st =
     (case st of (pos, s, caps) \<Rightarrow>
        let n = length (takeWhile (in_cls k) s);
            top = (case hi of None \<Rightarrow> n | Some h \<Rightarrow> min n h)
        in map (\<lambda>j. (pos + j, drop j s, caps)) (rev [lo ..< Suc top]))"

fun rx_match :: "bool \<Rightarrow> rx \<Rightarrow> mstate \<Rightarrow> mstate list" where
  "rx_match ic Eps st = [st]"
| "rx_match ic Bol (pos, s, caps) = (if pos = 0 then [(pos, s, caps)] else [])"
| "rx_match ic (Lit c) (pos, s, caps) =
     (case s of [] \<Rightarrow> []
      | x # xs \<Rightarrow> if (if ic then lower_char x = lower_char c else x = c)
                 then [(Suc pos, xs, caps)] else [])"
| "rx_match ic (Exact c) (pos, s, caps) =
     (case s of [] \<Rightarrow> [] | x # xs \<Rightarrow> if x = c then [(Suc pos, xs, caps)] else [])"
| "rx_match ic (Cls k) (pos, s, caps) =
     (case s of [] \<Rightarrow> [] | x # xs \<Rightarrow> if in_cls k x then [(Suc pos, xs, caps)] else [])"
| "rx_match ic (Many k lo hi) st = many_results k lo hi st"
| "rx_match ic (Seq r1 r2) st = concat (map (rx_match ic r2) (rx_match ic r1 st))"
| "rx_match ic (Alt r1 r2) st = rx_match ic r1 st @ rx_match ic r2 st"
| "rx_match ic (Opt r) st = rx_match ic r st @ [st]"
| "rx_match ic (Grp n r) (pos, s, caps) =
     map (\<lambda>(pos', s', caps'). (pos', s', (n, take (pos' - pos) s) # caps'))
         (rx_match ic r (pos, s, caps))"

text \<open>A literal word, and a choice between several patterns, in the order given.\<close>

definition word :: "string \<Rightarrow> rx" where
  "word w = foldr (\<lambda>c r. Seq (Lit c) r) w Eps"

fun alts :: "rx list \<Rightarrow> rx" where
  "alts [] = Eps"
| "alts [r] = r"
| "alts (r # rs) = Alt r (alts rs)"

text \<open>
  \<open>re.match\<close> at offset \<open>pos\<close> of the text: the best match that starts there.
  \<open>re.search\<close>: the best match at the leftmost offset that has one. Both return the
  offset where the match ends and its groups.
\<close>

definition match_at :: "bool \<Rightarrow> rx \<Rightarrow> nat \<Rightarrow> string \<Rightarrow> (nat \<times> (string \<times> string) list) option" where
  "match_at ic r pos s =
     (case rx_match ic r (pos, s, []) of
        [] \<Rightarrow> None
      | (e, _, caps) # _ \<Rightarrow> Some (e, caps))"

fun search_from :: "bool \<Rightarrow> rx \<Rightarrow> nat \<Rightarrow> string \<Rightarrow> (nat \<times> (string \<times> string) list) option" where
  "search_from ic r pos [] = match_at ic r pos []"
| "search_from ic r pos (c # cs) =
     (case match_at ic r pos (c # cs) of
        Some m \<Rightarrow> Some m
      | None \<Rightarrow> search_from ic r (Suc pos) cs)"

definition re_search :: "bool \<Rightarrow> rx \<Rightarrow> string \<Rightarrow> (string \<times> string) list option" where
  "re_search ic r s = map_option snd (search_from ic r 0 s)"

definition re_match :: "bool \<Rightarrow> rx \<Rightarrow> string \<Rightarrow> (nat \<times> (string \<times> string) list) option" where
  "re_match ic r s = match_at ic r 0 s"

text \<open>\<open>m.group(n)\<close> for a group that took part in the match.\<close>

definition group :: "(string \<times> string) list \<Rightarrow> string \<Rightarrow> string" where
  "group caps n = (case map_of caps n of Some g \<Rightarrow> g | None \<Rightarrow> [])"

section \<open>Date normalisation\<close>

subsection \<open>The library call \<open>datetime.strptime\<close>\<close>

text \<open>
  \<open>normalize_date\<close> tries ten formats with \<open>datetime.strptime\<close>. The library
  turns a format into a regular expression (one fixed pattern per directive, a run of
  whitespace becomes \<open>\s+\<close>, every other character stands for itself), compiles it
  case-insensitively, takes the best match at the start of the text and raises
  \<open>ValueError\<close> unless that match reaches the end of the text. It then builds the
  date, raising \<open>ValueError\<close> for a day the month does not have, for year 0, for a
  second above 59 and for a malformed or too large UTC offset. The model follows
  CPython's \<open>_strptime\<close> for the directives the ten formats use, in the C locale
  with the process's time zone UTC. \<open>None\<close> stands for \<open>ValueError\<close>.
\<close>

definition a_weekday :: "string list" where
  "a_weekday = [''mon'', ''tue'', ''wed'', ''thu'', ''fri'', ''sat'', ''sun'']"

definition a_month :: "string list" where
  "a_month = [''jan'', ''feb'', ''mar'', ''apr'', ''may'', ''jun'',
              ''jul'', ''aug'', ''sep'', ''oct'', ''nov'', ''dec'']"

definition f_month :: "string list" where
  "f_month = [''january'', ''february'', ''march'', ''april'', ''may'', ''june'',
              ''july'', ''august'', ''september'', ''october'', ''november'', ''december'']"

definition timezone_names :: "string list" where
  "timezone_names = [''utc'', ''gmt'']"

text \<open>The names of a directive as one alternation, longest first (\<open>__seqToRE\<close>).\<close>

definition seqToRE :: "string list \<Rightarrow> string \<Rightarrow> rx" where
  "seqToRE names n = Grp n (alts (map word (sort_key (\<lambda>w. - int (length w)) names)))"

definition directive :: "char \<Rightarrow> rx option" where
  "directive c =
    (if c = CHR ''d'' then Some (Grp ''d'' (alts
         [Seq (Lit CHR ''3'') (Cls (Range CHR ''0'' CHR ''1'')),
          Seq (Cls (Range CHR ''1'' CHR ''2'')) (Cls Digit),
          Seq (Lit CHR ''0'') (Cls (Range CHR ''1'' CHR ''9'')),
          Cls (Range CHR ''1'' CHR ''9''),
          Seq (Lit CHR '' '') (Cls (Range CHR ''1'' CHR ''9''))]))
     else if c = CHR ''H'' then Some (Grp ''H'' (alts
         [Seq (Lit CHR ''2'') (Cls (Range CHR ''0'' CHR ''3'')),
          Seq (Cls (Range CHR ''0'' CHR ''1'')) (Cls Digit),
          Cls Digit]))
     else if c = CHR ''m'' then Some (Grp ''m'' (alts
         [Seq (Lit CHR ''1'') (Cls (Range CHR ''0'' CHR ''2'')),
          Seq (Lit CHR ''0'') (Cls (Range CHR ''1'' CHR ''9'')),
          Cls (Range CHR ''1'' CHR ''9'')]))
     else if c = CHR ''M'' then Some (Grp ''M'' (alts
         [Seq (Cls (Range CHR ''0'' CHR ''5'')) (Cls Digit),
          Cls Digit]))
     else if c = CHR ''S'' then Some (Grp ''S'' (alts
         [Seq (Lit CHR ''6'') (Cls (Range CHR ''0'' CHR ''1'')),
          Seq (Cls (Range CHR ''0'' CHR ''5'')) (Cls Digit),
          Cls Digit]))
     else if c = CHR ''Y'' then Some (Grp ''Y'' (Many Digit 4 (Some 4)))
     else if c = CHR ''z'' then Some (Grp ''z'' (Alt
         (Seq (Cls (OneOf ''+-'')) (Seq (Many Digit 2 (Some 2))
           (Seq (Opt (Lit CHR '':''))
             (Seq (Cls (Range CHR ''0'' CHR ''5'')) (Seq (Cls Digit)
               (Opt (Seq (Opt (Lit CHR '':''))
                 (Seq (Cls (Range CHR ''0'' CHR ''5'')) (Seq (Cls Digit)
                   (Opt (Seq (Lit CHR ''.'') (Many Digit 1 (Some 6)))))))))))))
         (Exact CHR ''Z'')))
     else if c = CHR ''a'' then Some (seqToRE a_weekday ''a'')
     else if c = CHR ''b'' then Some (seqToRE a_month ''b'')
     else if c = CHR ''B'' then Some (seqToRE f_month ''B'')
     else if c = CHR ''Z'' then Some (seqToRE timezone_names ''Z'')
     else None)"

text \<open>
  \<open>TimeRE.pattern\<close>: the format read from left to right. A directive the table does
  not know, or a \<open>%\<close> at the end, makes \<open>strptime\<close> raise \<open>ValueError\<close>.
\<close>

fun pattern :: "string \<Rightarrow> rx option" where
  "pattern [] = Some Eps"
| "pattern [c] =
     (if c = CHR ''%'' then None
      else if is_space c then Some (Many Space 1 None)
      else Some (Lit c))"
| "pattern (c # c' # cs) =
     (if c = CHR ''%'' then
        (case directive c' of None \<Rightarrow> None
         | Some r \<Rightarrow> map_option (Seq r) (pattern cs))
      else if is_space c then
        (if is_space c' then pattern (c' # cs)
         else map_option (Seq (Many Space 1 None)) (pattern (c' # cs)))
      else map_option (Seq (Lit c)) (pattern (c' # cs)))"

text \<open>\<open>int(s)\<close> on a string of digits, after the leading whitespace \<open>int\<close> strips.\<close>

definition digit_val :: "char \<Rightarrow> nat" where
  "digit_val c = of_char c - 48"

definition int_of_digits :: "string \<Rightarrow> nat" where
  "int_of_digits s = foldl (\<lambda>a c. 10 * a + digit_val c) 0 (dropWhile is_space s)"

text \<open>The index of a name in a list, as \<open>list.index\<close> (the name is known to occur).\<close>

fun index_of :: "string list \<Rightarrow> string \<Rightarrow> nat" where
  "index_of [] w = 0"
| "index_of (x # xs) w = (if x = w then 0 else Suc (index_of xs w))"

definition leap_year :: "nat \<Rightarrow> bool" where
  "leap_year y = (y mod 4 = 0 \<and> (y mod 100 \<noteq> 0 \<or> y mod 400 = 0))"

definition days_in_month :: "nat \<Rightarrow> nat \<Rightarrow> nat" where
  "days_in_month y m =
     (if m = 2 then (if leap_year y then 29 else 28)
      else if m = 4 \<or> m = 6 \<or> m = 9 \<or> m = 11 then 30 else 31)"

text \<open>
  The checks on a \<open>%z\<close> offset that is not the letter Z: the colons are used
  consistently, the seconds are digits, and the offset is below 24 hours.
\<close>

definition z_ok :: "string \<Rightarrow> bool" where
  "z_ok z =
     (if z = ''Z'' then True
      else
        let colon = (z ! 3 = CHR '':'');
            z1 = (if colon then take 3 z @ drop 4 z else z)
        in if colon \<and> length z1 > 5 \<and> z1 ! 5 \<noteq> CHR '':'' then False
           else
             let z2 = (if colon \<and> length z1 > 5 then take 5 z1 @ drop 6 z1 else z1);
                 secs = take 2 (drop 5 z2)
             in (secs = [] \<or> isdigit secs) \<and> int_of_digits (take 2 (drop 1 z2)) < 24)"

definition strptime :: "string \<Rightarrow> string \<Rightarrow> (nat \<times> nat \<times> nat) option" where
  "strptime s fmt =
     (case pattern fmt of
        None \<Rightarrow> None
      | Some r \<Rightarrow>
         (case re_match True r s of
            None \<Rightarrow> None
          | Some (e, caps) \<Rightarrow>
              if e \<noteq> length s then None
              else
                let year = (case map_of caps ''Y'' of Some g \<Rightarrow> int_of_digits g | None \<Rightarrow> 1900);
                    month = (case map_of caps ''m'' of Some g \<Rightarrow> int_of_digits g
                             | None \<Rightarrow>
                             (case map_of caps ''B'' of Some g \<Rightarrow> Suc (index_of f_month (lower g))
                              | None \<Rightarrow>
                              (case map_of caps ''b'' of Some g \<Rightarrow> Suc (index_of a_month (lower g))
                               | None \<Rightarrow> 1)));
                    day = (case map_of caps ''d'' of Some g \<Rightarrow> int_of_digits g | None \<Rightarrow> 1);
                    second = (case map_of caps ''S'' of Some g \<Rightarrow> int_of_digits g | None \<Rightarrow> 0);
                    zone_ok = (case map_of caps ''z'' of Some g \<Rightarrow> z_ok g | None \<Rightarrow> True)
                in if zone_ok \<and> 1 \<le> year \<and> 1 \<le> day \<and> day \<le> days_in_month year month
                      \<and> second \<le> 59
                   then Some (year, month, day) else None))"

text \<open>
  \<open>strftime('%Y-%m-%d')\<close>: four digits for the year, two for month and day.
  (For a year below 1000 some C libraries print fewer digits; the model pads.)
\<close>

definition digit_char :: "nat \<Rightarrow> char" where
  "digit_char n = char_of (48 + n mod 10)"

definition strftime :: "nat \<times> nat \<times> nat \<Rightarrow> string" where
  "strftime ymd =
     (case ymd of (y, m, d) \<Rightarrow>
        [digit_char (y div 1000), digit_char (y div 100), digit_char (y div 10), digit_char y,
         CHR ''-'', digit_char (m div 10), digit_char m,
         CHR ''-'', digit_char (d div 10), digit_char d])"

subsection \<open>\<open>normalize_date\<close>\<close>

definition date_formats :: "string list" where
  "date_formats =
     [''%a, %d %b %Y %H:%M:%S %Z'',
      ''%Y-%m-%dT%H:%M:%SZ'',
      ''%Y-%m-%dT%H:%M:%S%z'',
      ''%Y-%m-%d %H:%M:%S UTC'',
      ''%Y-%m-%d %H:%M:%S'',
      ''%Y-%m-%d'',
      ''%d %b %Y'',
      ''%B %d, %Y'',
      ''%m/%d/%Y'',
      ''%d/%m/%Y'']"

text \<open>The loop over the formats: the first one that parses gives the result.\<close>

fun try_formats :: "string \<Rightarrow> string list \<Rightarrow> string option" where
  "try_formats s [] = None"
| "try_formats s (fmt # fmts) =
     (case strptime s fmt of
        Some ymd \<Rightarrow> Some (strftime ymd)
      | None \<Rightarrow> try_formats s fmts)"

text \<open>The last resort: \<open>(\d{4}[-/]\d{1,2}[-/]\d{1,2})\<close>.\<close>

definition date_rx :: rx where
  "date_rx = Grp ''1'' (Seq (Many Digit 4 (Some 4)) (Seq (Cls (OneOf ''-/''))
               (Seq (Many Digit 1 (Some 2)) (Seq (Cls (OneOf ''-/'')) (Many Digit 1 (Some 2))))))"

text \<open>
  \<open>normalize_date\<close> calls itself on the date it found in the text. Nothing bounds
  that recursion but the interpreter's recursion limit, so the model carries the
  number of frames left and raises \<open>RecursionError\<close> when there is none. A value
  that is not a string makes every \<open>strptime\<close> raise \<open>TypeError\<close>, which the loop
  catches, and then \<open>re.search\<close> raise \<open>TypeError\<close>, which nothing catches. The
  handler around the recursive call catches \<open>ValueError\<close> and \<open>TypeError\<close> only.
\<close>

fun normalize_date_rec :: "nat \<Rightarrow> pyval \<Rightarrow> pyerr + string" where
  "normalize_date_rec 0 v = Inl RecursionError"
| "normalize_date_rec (Suc n) v =
     (if \<not> truthy v then Inr ''Unknown Date''
      else case v of
        PStr s \<Rightarrow>
          (case try_formats s date_formats of
             Some r \<Rightarrow> Inr r
           | None \<Rightarrow>
              (case re_search False date_rx s of
                 Some caps \<Rightarrow>
                   (case normalize_date_rec n (PStr (replace_char CHR ''/'' ''-'' (group caps ''1''))) of
                      Inr r \<Rightarrow> Inr r
                    | Inl ValueError \<Rightarrow> Inr ''Unknown Date''
                    | Inl TypeError \<Rightarrow> Inr ''Unknown Date''
                    | Inl e \<Rightarrow> Inl e)
               | None \<Rightarrow> Inr ''Unknown Date''))
      | _ \<Rightarrow> Inl TypeError)"

definition recursion_limit :: nat where
  "recursion_limit = 1000"

definition normalize_date :: "pyval \<Rightarrow> pyerr + string" where
  "normalize_date v = normalize_date_rec recursion_limit v"

section \<open>Printing values\<close>

text \<open>
  \<open>str(x)\<close> and \<open>repr(x)\<close>, which the filter applies to a whole entry and the
  f-strings of the group key apply to the extracted fields.
\<close>

fun join :: "string \<Rightarrow> string list \<Rightarrow> string" where
  "join sep [] = []"
| "join sep [x] = x"
| "join sep (x # y # ys) = x @ sep @ join sep (y # ys)"

fun str_nat :: "nat \<Rightarrow> string" where
  "str_nat n = (if n < 10 then [digit_char n] else str_nat (n div 10) @ [digit_char n])"

definition str_int :: "int \<Rightarrow> string" where
  "str_int i = (if i < 0 then CHR ''-'' # str_nat (nat (- i)) else str_nat (nat i))"

definition hex_digit :: "nat \<Rightarrow> char" where
  "hex_digit n = (if n < 10 then char_of (48 + n) else char_of (87 + n))"

definition repr_char :: "char \<Rightarrow> char \<Rightarrow> string" where
  "repr_char q c =
     (if c = CHR 0x5C then [CHR 0x5C, CHR 0x5C]
      else if c = q then [CHR 0x5C, q]
      else if c = CHR 0x0A then [CHR 0x5C, CHR ''n'']
      else if c = CHR 0x0D then [CHR 0x5C, CHR ''r'']
      else if c = CHR 0x09 then [CHR 0x5C, CHR ''t'']
      else if (of_char c :: nat) < 32 \<or> (of_char c :: nat) = 127
        then [CHR 0x5C, CHR ''x'', hex_digit (of_char c div 16), hex_digit (of_char c mod 16)]
      else [c])"

definition repr_str :: "string \<Rightarrow> string" where
  "repr_str s =
     (let q = (if CHR 0x27 \<in> set s \<and> CHR 0x22 \<notin> set s then CHR 0x22 else CHR 0x27)
      in [q] @ concat (map (repr_char q) s) @ [q])"

fun repr :: "pyval \<Rightarrow> string"
  and repr_list :: "pyval list \<Rightarrow> string list"
  and repr_items :: "(string \<times> pyval) list \<Rightarrow> string list" where
  "repr PNone = ''None''"
| "repr (PBool b) = (if b then ''True'' else ''False'')"
| "repr (PInt i) = str_int i"
| "repr (PStr s) = repr_str s"
| "repr (PList l) = ''['' @ join '', '' (repr_list l) @ '']''"
| "repr (PDict d) = ''{'' @ join '', '' (repr_items d) @ ''}''"
| "repr_list [] = []"
| "repr_list (v # vs) = repr v # repr_list vs"
| "repr_items [] = []"
| "repr_items ((k, v) # kvs) = (repr_str k @ '': '' @ repr v) # repr_items kvs"

definition str :: "pyval \<Rightarrow> string" where
  "str v = (case v of PStr s \<Rightarrow> s | _ \<Rightarrow> repr v)"

section \<open>The entry filter\<close>

subsection \<open>Magnitudes\<close>

text \<open>
  The filter compares \<open>float(text)\<close> with 5.8 and with 6.0, for a text made of
  digits and at most one point. \<open>float\<close> rounds the decimal to the nearest double,
  ties to even, and the literal 5.8 is the double \<open>6530219459687219 / 2^50\<close>. So
  \<open>float(text) < 5.8\<close> holds exactly when the decimal is at most the midpoint
  between that double and the one before it, \<open>13060438919374437 / 2^51\<close> (the tie
  goes down, to the even neighbour), and \<open>float(text) < 6.0\<close> exactly when the
  decimal is below \<open>13510798882111487 / 2^51\<close> (the tie goes up, to 6.0). Both
  are stated on integers: a text with mantissa \<open>m\<close> and \<open>k\<close> digits after the
  point denotes \<open>m / 10^k\<close>.
\<close>

definition mantissa :: "string \<Rightarrow> int" where
  "mantissa s = foldl (\<lambda>a c. 10 * a + int (digit_val c)) 0 (filter is_digit s)"

definition frac_digits :: "string \<Rightarrow> nat" where
  "frac_digits s = length (filter is_digit (dropWhile (\<lambda>c. c \<noteq> CHR ''.'') s))"

definition float_lt_5_8 :: "string \<Rightarrow> bool" where
  "float_lt_5_8 s = (mantissa s * 2 ^ 51 \<le> 13060438919374437 * 10 ^ frac_digits s)"

definition float_lt_6_0 :: "string \<Rightarrow> bool" where
  "float_lt_6_0 s = (mantissa s * 2 ^ 51 < 13510798882111487 * 10 ^ frac_digits s)"

text \<open>
  \<open>float(text)\<close> for a text of digits and points raises \<open>ValueError\<close> when there
  is more than one point.
\<close>

definition float_parses :: "string \<Rightarrow> bool" where
  "float_parses s = (length (filter (\<lambda>c. c = CHR ''.'') s) \<le> 1)"

text \<open>\<open>(?:^|\s)(?:m|magnitude)\s*(\d+\.?\d*)\<close>\<close>

definition magnitude_rx :: rx where
  "magnitude_rx =
     Seq (Alt Bol (Cls Space))
       (Seq (Alt (word ''m'') (word ''magnitude''))
         (Seq (Many Space 0 None)
           (Grp ''1'' (Seq (Many Digit 1 None) (Seq (Opt (Lit CHR ''.'')) (Many Digit 0 None))))))"

text \<open>\<open>alertlevel\s*>\s*green\<close>\<close>

definition alertlevel_rx :: rx where
  "alertlevel_rx =
     Seq (word ''alertlevel'') (Seq (Many Space 0 None)
       (Seq (Lit CHR ''>'') (Seq (Many Space 0 None) (word ''green''))))"

subsection \<open>\<open>should_filter_entry\<close>\<close>

text \<open>Sequencing of steps that may raise: the first exception ends the call.\<close>

definition pbind :: "pyerr + 'a \<Rightarrow> ('a \<Rightarrow> pyerr + 'b) \<Rightarrow> pyerr + 'b" where
  "pbind m f = (case m of Inl e \<Rightarrow> Inl e | Inr x \<Rightarrow> f x)"

text \<open>\<open>entry.get(k, "").lower() if isinstance(entry, dict) else ""\<close>\<close>

definition get_lower :: "pyval \<Rightarrow> string \<Rightarrow> pyerr + string" where
  "get_lower entry k =
     (case entry of
        PDict d \<Rightarrow> (case dict_get d k (PStr []) of
                      PStr s \<Rightarrow> Inr (lower s)
                    | _ \<Rightarrow> Inl AttributeError)
      | _ \<Rightarrow> Inr [])"

text \<open>
  The check on the extracted severity, which the GDACS rules run with the threshold
  6.0 and the USGS rules with 5.8: \<open>True\<close> when the entry is to be filtered.
\<close>

definition low_extracted_magnitude :: "(string \<Rightarrow> bool) \<Rightarrow> pyval \<Rightarrow> pyerr + bool" where
  "low_extracted_magnitude below det =
     (case det of
        PDict dd \<Rightarrow>
          (if dd = [] then Inr False
           else (case dict_get dd ''disaster_type'' (PStr []) of
             PStr t \<Rightarrow>
               (if lower t = ''earthquake'' then
                  (case dict_get dd ''severity'' (PStr []) of
                     PStr magnitude \<Rightarrow>
                       Inr (isdigit (replace_char CHR ''.'' [] magnitude)
                            \<and> float_parses magnitude \<and> below magnitude)
                   | _ \<Rightarrow> Inr False)
                else Inr False)
           | _ \<Rightarrow> Inl AttributeError))
      | _ \<Rightarrow> Inr False)"

text \<open>The NOAA SPC rules: mesoscale discussions and outlooks.\<close>

definition spc_rules :: "string \<Rightarrow> string \<Rightarrow> bool" where
  "spc_rules title link =
     ((contains ''/md/'' link \<or> startswith title ''spc md'')
      \<or> (contains ''/outlook/'' link \<or> contains ''outlook'' (lower title)))"

text \<open>
  Rule 5 of the GDACS rules: the extracted alert level is green. Rule 7: the entry has
  an icon whose URL names green and eq.
\<close>

definition extracted_level_green :: "pyval \<Rightarrow> pyerr + bool" where
  "extracted_level_green det =
     (case det of
        PDict dd \<Rightarrow>
          (if dd = [] then Inr False
           else (case dict_get dd ''alert_level'' (PStr []) of
                   PStr a \<Rightarrow> Inr (lower a = ''green'')
                 | _ \<Rightarrow> Inl AttributeError))
      | _ \<Rightarrow> Inr False)"

definition green_icon :: "(string \<times> pyval) list \<Rightarrow> pyerr + bool" where
  "green_icon d =
     (if has_key d ''icon''
      then (case dict_get d ''icon'' (PStr []) of
              PStr icon_url \<Rightarrow>
                Inr (contains ''green'' (lower icon_url) \<and> contains ''eq'' (lower icon_url))
            | _ \<Rightarrow> Inl AttributeError)
      else Inr False)"

text \<open>The GDACS rules, in the order of the source (rules 1 to 8).\<close>

definition gdacs_rules :: "(string \<times> pyval) list \<Rightarrow> pyval \<Rightarrow> string \<Rightarrow> string \<Rightarrow> pyerr + bool" where
  "gdacs_rules d det title summary =
     (if startswith title ''green '' then Inr True
      else if contains ''green alert'' title \<or> contains ''green alert'' summary then Inr True
      else if list_ex (\<lambda>(k, v). contains ''alertlevel'' (lower k)
                         \<and> (case v of PStr s \<Rightarrow> lower s = ''green'' | _ \<Rightarrow> False)) d
        then Inr True
      else if contains ''alertlevel'' (lower (str (PDict d)))
              \<and> contains ''green'' (lower (str (PDict d)))
              \<and> re_search True alertlevel_rx (str (PDict d)) \<noteq> None
        then Inr True
      else pbind (extracted_level_green det) (\<lambda>green.
        if green then Inr True
        else if contains ''green earthquake'' title then Inr True
        else pbind (green_icon d) (\<lambda>icon.
          if icon then Inr True
          else low_extracted_magnitude float_lt_6_0 det)))"

text \<open>
  The USGS rules: the magnitude in the title, else (only when the title has none) the
  one in the summary, then the extracted severity.
\<close>

definition usgs_rules :: "pyval \<Rightarrow> string \<Rightarrow> string \<Rightarrow> pyerr + bool" where
  "usgs_rules det title summary =
     (case re_search True magnitude_rx title of
        Some caps \<Rightarrow>
          (if float_lt_5_8 (group caps ''1'') then Inr True
           else low_extracted_magnitude float_lt_5_8 det)
      | None \<Rightarrow>
          (case re_search True magnitude_rx summary of
             Some caps \<Rightarrow>
               (if float_lt_5_8 (group caps ''1'') then Inr True
                else low_extracted_magnitude float_lt_5_8 det)
           | None \<Rightarrow> low_extracted_magnitude float_lt_5_8 det))"

definition should_filter_entry :: "pyval \<Rightarrow> pyval \<Rightarrow> pyerr + bool" where
  "should_filter_entry entry entry_details =
     (if entry = PNone then Inr True
      else
        pbind (get_lower entry ''source_type'') (\<lambda>source_type.
        pbind (get_lower entry ''title'') (\<lambda>title.
        pbind (get_lower entry ''summary'') (\<lambda>summary.
        pbind (get_lower entry ''link'') (\<lambda>link.
          if source_type = ''noaa_spc'' \<and> spc_rules title link then Inr True
          else if source_type = ''gdacs'' then
            (case entry of PDict d \<Rightarrow> gdacs_rules d entry_details title summary
             | _ \<Rightarrow> Inr False)
          else if source_type = ''usgs'' then usgs_rules entry_details title summary
          else Inr False)))))"

section \<open>The detail extractor\<close>

text \<open>
  A prepared entry is the dictionary \<open>prepare_entry_for_extraction\<close> builds: always
  the same six keys, the id being the entry's link. The language model is outside
  the program: \<open>llm a\<close> is what the \<open>a\<close>-th call of one batch brings back, an
  exception of the client (\<open>ApiFailure\<close>), a text that is not JSON (\<open>BadJson\<close>) or
  a parsed JSON value. The prompt is built from the entries without ever raising and
  only travels to the model, so it is not part of the embedding.
\<close>

record prepared =
  p_id :: string
  p_title :: pyval
  p_summary :: string
  p_source :: pyval
  p_source_type :: pyval
  p_published :: string

datatype llm_reply = ApiFailure | BadJson | Json pyval

text \<open>
  The result maps of the extractor are Python dictionaries keyed by arbitrary hashable
  values: association lists in insertion order. \<open>m[k] = v\<close> replaces the value of a
  key that is there and appends a new key at the end. A list or a dictionary is not
  hashable; \<open>True\<close> and \<open>1\<close> are the same key.
\<close>

type_synonym pydict = "(pyval \<times> pyval) list"

fun dict_set :: "pydict \<Rightarrow> pyval \<Rightarrow> pyval \<Rightarrow> pydict" where
  "dict_set [] k v = [(k, v)]"
| "dict_set ((k', v') # m) k v = (if k' = k then (k, v) # m else (k', v') # dict_set m k v)"

fun dict_key :: "pyval \<Rightarrow> pyerr + pyval" where
  "dict_key (PList l) = Inl TypeError"
| "dict_key (PDict d) = Inl TypeError"
| "dict_key (PBool b) = Inr (PInt (if b then 1 else 0))"
| "dict_key v = Inr v"

text \<open>\<open>for x in v\<close>: the elements of a list, the characters of a string, the keys of
  a dictionary; anything else is not iterable.\<close>

fun iter_items :: "pyval \<Rightarrow> pyerr + pyval list" where
  "iter_items (PList l) = Inr l"
| "iter_items (PStr s) = Inr (map (\<lambda>c. PStr [c]) s)"
| "iter_items (PDict d) = Inr (map (\<lambda>kv. PStr (fst kv)) d)"
| "iter_items v = Inl TypeError"

text \<open>\<open>s[:100] + "..." if len(s) > 100 else s\<close>\<close>

definition truncated :: "string \<Rightarrow> string" where
  "truncated s = (if length s > 100 then take 100 s @ ''...'' else s)"

text \<open>The record synthesised for an entry the model did not answer for.\<close>

definition fallback_record :: "prepared \<Rightarrow> pyerr + pyval" where
  "fallback_record entry =
     pbind (normalize_date (PStr (p_published entry))) (\<lambda>date.
       Inr (PDict [(''disaster_type'', PStr ''Unknown Type''),
                   (''location'', PStr ''Unknown Location''),
                   (''date'', PStr date),
                   (''severity'', PNone),
                   (''alert_level'', PStr []),
                   (''description'', PStr (truncated (p_summary entry)))]))"

text \<open>The record stored for one result of the model, its date normalised first.\<close>

definition result_record :: "(string \<times> pyval) list \<Rightarrow> pyerr + pyval" where
  "result_record result =
     pbind (if truthy (dict_get result ''date'' PNone)
            then pbind (normalize_date (dict_get result ''date'' PNone)) (\<lambda>d. Inr (PStr d))
            else Inr (dict_get result ''date'' (PStr ''Unknown Date''))) (\<lambda>date.
       Inr (PDict [(''disaster_type'', dict_get result ''disaster_type'' (PStr ''Unknown Type'')),
                   (''location'', dict_get result ''location'' (PStr ''Unknown Location'')),
                   (''date'', date),
                   (''severity'', dict_get result ''severity'' PNone),
                   (''alert_level'', dict_get result ''alert_level'' (PStr [])),
                   (''description'', dict_get result ''description'' (PStr []))]))"

text \<open>The shape of the parsed answer decides what is iterated as the results.\<close>

definition results_array :: "pyval \<Rightarrow> pyval" where
  "results_array parsed =
     (case parsed of
        PDict d \<Rightarrow> (if has_key d ''results'' then dict_get d ''results'' PNone
                    else if has_key d ''id'' then PList [parsed] else PList [])
      | PList l \<Rightarrow> PList l
      | _ \<Rightarrow> PList [])"

text \<open>The loop over the results: \<open>result.get\<close> needs a dictionary.\<close>

fun store_results :: "pyval list \<Rightarrow> pydict \<Rightarrow> pyerr + pydict" where
  "store_results [] m = Inr m"
| "store_results (PDict result # rs) m =
     (if truthy (dict_get result ''id'' PNone)
      then pbind (result_record result) (\<lambda>r.
           pbind (dict_key (dict_get result ''id'' PNone)) (\<lambda>k.
             store_results rs (dict_set m k r)))
      else store_results rs m)"
| "store_results (v # rs) m = Inl AttributeError"

text \<open>The loop that adds a fallback for every id still missing.\<close>

fun add_fallbacks :: "prepared list \<Rightarrow> pydict \<Rightarrow> pyerr + pydict" where
  "add_fallbacks [] m = Inr m"
| "add_fallbacks (entry # es) m =
     (if map_of m (PStr (p_id entry)) \<noteq> None then add_fallbacks es m
      else pbind (fallback_record entry) (\<lambda>r.
             add_fallbacks es (dict_set m (PStr (p_id entry)) r)))"

definition process_reply :: "pyval \<Rightarrow> prepared list \<Rightarrow> pyerr + pydict" where
  "process_reply parsed entries =
     pbind (iter_items (results_array parsed)) (\<lambda>rs.
     pbind (store_results rs []) (\<lambda>m.
       add_fallbacks entries m))"

text \<open>
  The retry loop, \<open>attempt\<close> running from 1 to \<open>max_retries\<close>: an attempt returns
  the map or ends in an exception, which is logged; \<open>None\<close> when every attempt failed.
\<close>

fun attempts :: "(nat \<Rightarrow> llm_reply) \<Rightarrow> prepared list \<Rightarrow> nat \<Rightarrow> nat \<Rightarrow> pydict option" where
  "attempts llm entries attempt 0 = None"
| "attempts llm entries attempt (Suc left) =
     (case llm attempt of
        Json parsed \<Rightarrow>
          (case process_reply parsed entries of
             Inr m \<Rightarrow> Some m
           | Inl e \<Rightarrow> attempts llm entries (Suc attempt) left)
      | _ \<Rightarrow> attempts llm entries (Suc attempt) left)"

text \<open>The loop after the retries: a fallback for every entry, nothing caught.\<close>

fun fallback_details :: "prepared list \<Rightarrow> pydict \<Rightarrow> pyerr + pydict" where
  "fallback_details [] m = Inr m"
| "fallback_details (entry # es) m =
     pbind (fallback_record entry) (\<lambda>r.
       fallback_details es (dict_set m (PStr (p_id entry)) r))"

definition extract_details_in_batch ::
    "(nat \<Rightarrow> llm_reply) \<Rightarrow> nat \<Rightarrow> prepared list \<Rightarrow> pyerr + pydict" where
  "extract_details_in_batch llm max_retries entries =
     (if entries = [] then Inr []
      else case attempts llm entries 1 max_retries of
             Some m \<Rightarrow> Inr m
           | None \<Rightarrow> fallback_details entries [])"

section \<open>The grouper\<close>

text \<open>\<open>md\s+(\d+)\<close>\<close>

definition md_rx :: rx where
  "md_rx = Seq (word ''md'') (Seq (Many Space 1 None) (Grp ''1'' (Many Digit 1 None)))"

text \<open>
  The construction of the group key, from the extracted details and the entry. The
  f-strings print each field with \<open>str\<close>.
\<close>

definition group_key :: "(string \<times> pyval) list \<Rightarrow> pyval \<Rightarrow> pyerr + string" where
  "group_key disaster details =
     (case details of
        PDict dd \<Rightarrow>
          pbind
            (if dict_get disaster ''source_type'' PNone = PStr ''gdacs''
                \<and> truthy (dict_get dd ''alert_level'' PNone)
             then (case dict_get dd ''alert_level'' (PStr []) of
                     PStr a \<Rightarrow>
                       Inr (str (dict_get dd ''disaster_type'' (PStr ''Unknown Type''))
                            @ '' ('' @ capitalize a @ '' Alert) in ''
                            @ str (dict_get dd ''location'' (PStr ''Unknown Location''))
                            @ '' on '' @ str (dict_get dd ''date'' (PStr ''Unknown Date'')))
                   | _ \<Rightarrow> Inl AttributeError)
             else if truthy (dict_get dd ''severity'' PNone)
             then Inr (str (dict_get dd ''disaster_type'' (PStr ''Unknown Type''))
                       @ '' ('' @ str (dict_get dd ''severity'' PNone) @ '') in ''
                       @ str (dict_get dd ''location'' (PStr ''Unknown Location''))
                       @ '' on '' @ str (dict_get dd ''date'' (PStr ''Unknown Date'')))
             else Inr (str (dict_get dd ''disaster_type'' (PStr ''Unknown Type''))
                       @ '' in ''
                       @ str (dict_get dd ''location'' (PStr ''Unknown Location''))
                       @ '' on '' @ str (dict_get dd ''date'' (PStr ''Unknown Date''))))
            (\<lambda>key.
               if dict_get disaster ''source_type'' PNone = PStr ''noaa_spc''
               then (case dict_get disaster ''title'' (PStr []) of
                       PStr title \<Rightarrow>
                         (if contains ''spc md'' (lower title)
                          then (case re_search False md_rx (lower title) of
                                  Some caps \<Rightarrow>
                                    Inr (''Severe Weather Discussion (MD '' @ group caps ''1'' @ '')'')
                                | None \<Rightarrow> Inr key)
                          else Inr key)
                     | _ \<Rightarrow> Inl AttributeError)
               else Inr key)
      | _ \<Rightarrow> Inl AttributeError)"

text \<open>\<open>d[k]\<close> on an entry.\<close>

definition subscript :: "(string \<times> pyval) list \<Rightarrow> string \<Rightarrow> pyerr + pyval" where
  "subscript d k = (case map_of d k of None \<Rightarrow> Inl KeyError | Some v \<Rightarrow> Inr v)"

text \<open>The member stored in a group.\<close>

definition group_member :: "(string \<times> pyval) list \<Rightarrow> pyval \<Rightarrow> pyerr + pyval" where
  "group_member disaster details =
     pbind (subscript disaster ''title'') (\<lambda>title.
     pbind (subscript disaster ''link'') (\<lambda>link.
     pbind (subscript disaster ''published'') (\<lambda>published.
     pbind (subscript disaster ''source'') (\<lambda>source.
       Inr (PDict [(''title'', title),
                   (''summary'', dict_get disaster ''summary'' (PStr [])),
                   (''link'', link),
                   (''published'', published),
                   (''source'', source),
                   (''details'', details)])))))"

text \<open>
  \<open>grouped\<close> is a \<open>defaultdict(list)\<close>: \<open>grouped[key].append(x)\<close> creates the group
  when the key is new.
\<close>

type_synonym groups = "(string \<times> pyval list) list"

fun group_append :: "groups \<Rightarrow> string \<Rightarrow> pyval \<Rightarrow> groups" where
  "group_append [] key x = [(key, [x])]"
| "group_append ((k, xs) # g) key x =
     (if k = key then (k, xs @ [x]) # g else (k, xs) # group_append g key x)"

text \<open>Key construction and append: the statements after the filter of the loop body.\<close>

definition keep_entry :: "(string \<times> pyval) list \<Rightarrow> pyval \<Rightarrow> groups \<Rightarrow> pyerr + groups" where
  "keep_entry disaster details grouped =
     pbind (group_key disaster details) (\<lambda>key.
     pbind (group_member disaster details) (\<lambda>member.
       Inr (group_append grouped key member)))"

text \<open>
  The first pass of \<open>group_disasters\<close>, before any call of the model:
  \<open>[d for d in disasters if not should_filter_entry(d)]\<close>. Nothing catches an
  exception of the filter here. When no entry is left \<open>group_disasters\<close> returns
  the empty grouping at once.
\<close>

fun initial_filtered :: "pyval list \<Rightarrow> pyerr + pyval list" where
  "initial_filtered [] = Inr []"
| "initial_filtered (d # ds) =
     pbind (should_filter_entry d PNone) (\<lambda>filtered.
     pbind (initial_filtered ds) (\<lambda>kept.
       Inr (if filtered then kept else d # kept)))"

text \<open>
  One round of the second loop of \<open>group_disasters\<close>, the loop that matches the
  details back to the entries. That loop runs over the entries the first pass kept,
  and \<open>all_details\<close> is the map the extraction in batches gave for them; the first
  pass, the preparation of the entries and the extraction are not part of this
  definition, which says nothing about an entry the first pass filtered. An entry
  that is not a dictionary, or has no details, is skipped. The filter is called
  inside \<open>try\<close>: \<open>True\<close> skips the entry, \<open>False\<close> keeps it, and an exception is
  logged and the round goes on.
\<close>

definition group_entry :: "pydict \<Rightarrow> pyval \<Rightarrow> groups \<Rightarrow> pyerr + groups" where
  "group_entry all_details disaster grouped =
     (case disaster of
        PDict d \<Rightarrow>
          pbind (dict_key (dict_get d ''link'' (PStr []))) (\<lambda>entry_id.
            (case map_of all_details entry_id of
               None \<Rightarrow> Inr grouped
             | Some details \<Rightarrow>
                 if \<not> truthy details then Inr grouped
                 else (case should_filter_entry disaster details of
                         Inr True \<Rightarrow> Inr grouped
                       | Inr False \<Rightarrow> keep_entry d details grouped
                       | Inl e \<Rightarrow> keep_entry d details grouped)))
      | _ \<Rightarrow> Inr grouped)"

fun group_loop :: "pydict \<Rightarrow> pyval list \<Rightarrow> groups \<Rightarrow> pyerr + groups" where
  "group_loop all_details [] grouped = Inr grouped"
| "group_loop all_details (disaster # ds) grouped =
     pbind (group_entry all_details disaster grouped) (group_loop all_details ds)"

section \<open>The ledger of sent entries\<close>

text \<open>
  The table \<open>sent_entries\<close>: rows of a link and the time it was stored, the link
  being the primary key. Times are seconds; SQLite stores and compares them as texts
  of one fixed layout, whose order is the order of the times. Each function opens the
  database inside \<open>try\<close>: \<open>db_ok\<close> tells whether its statements succeed, and when
  they do not the error is logged and nothing is written.
\<close>

type_synonym ledger = "(string \<times> int) list"

definition retention :: int where
  "retention = 30 * 86400"

text \<open>\<open>DELETE FROM sent_entries WHERE timestamp < datetime('now', '-30 day')\<close>\<close>

definition cleanup_old_entries :: "bool \<Rightarrow> int \<Rightarrow> ledger \<Rightarrow> ledger" where
  "cleanup_old_entries db_ok now tbl =
     (if db_ok then filter (\<lambda>row. \<not> snd row < now - retention) tbl else tbl)"

text \<open>\<open>SELECT link FROM sent_entries\<close>, as a set; the empty set on an error.\<close>

definition load_sent_entries :: "bool \<Rightarrow> ledger \<Rightarrow> string set" where
  "load_sent_entries db_ok tbl = (if db_ok then set (map fst tbl) else {})"

text \<open>\<open>INSERT OR IGNORE INTO sent_entries (link, timestamp) VALUES (?, CURRENT_TIMESTAMP)\<close>\<close>

definition insert_or_ignore :: "int \<Rightarrow> ledger \<Rightarrow> string \<Rightarrow> ledger" where
  "insert_or_ignore now tbl link =
     (if link \<in> set (map fst tbl) then tbl else tbl @ [(link, now)])"

definition save_sent_entries :: "bool \<Rightarrow> int \<Rightarrow> string list \<Rightarrow> ledger \<Rightarrow> ledger" where
  "save_sent_entries db_ok now new_links tbl =
     (if db_ok then foldl (insert_or_ignore now) tbl new_links else tbl)"

section \<open>Notification and the cycle\<close>

text \<open>
  Slack is outside the program: \<open>slack n\<close> is the outcome of the \<open>n\<close>-th call of
  \<open>chat_postMessage\<close> in one send, a success, a \<open>SlackApiError\<close> with its error
  code and its \<open>Retry-After\<close> header, or another exception. The fallback text
  computed from the blocks only travels to Slack and is left out.
\<close>

datatype retry_after = NoHeader | Seconds nat | Malformed

datatype post_outcome = Posted | SlackApiError string retry_after | OtherException

text \<open>
  The retry loop of \<open>send_disaster_alert_block\<close>. \<open>call\<close> counts the calls made,
  \<open>attempt\<close> the rounds, \<open>left\<close> the rounds still to run. An invalid payload makes
  one more call with a plain text and gives up whatever its result, unless that call
  raises something else than \<open>SlackApiError\<close> (\<open>OtherError\<close>), which nothing
  catches; neither is the \<open>ValueError\<close> of a \<open>Retry-After\<close> header that is not a
  number.
\<close>

fun send_loop :: "(nat \<Rightarrow> post_outcome) \<Rightarrow> nat \<Rightarrow> nat \<Rightarrow> pyerr + bool" where
  "send_loop slack call 0 = Inr False"
| "send_loop slack call (Suc left) =
     (case slack call of
        Posted \<Rightarrow> Inr True
      | OtherException \<Rightarrow> send_loop slack (Suc call) left
      | SlackApiError error_code hdr \<Rightarrow>
          if error_code = ''invalid_blocks'' then
            (case slack (Suc call) of
               Posted \<Rightarrow> Inr False
             | SlackApiError c h \<Rightarrow> Inr False
             | OtherException \<Rightarrow> Inl OtherError)
          else if error_code = ''channel_not_found'' then Inr False
          else if error_code = ''not_in_channel'' then Inr False
          else if error_code = ''rate_limited'' then
            (if hdr = Malformed then Inl ValueError else send_loop slack (Suc call) left)
          else send_loop slack (Suc call) left)"

record slack_config =
  slack_bot_token :: "string option"
  channel_name :: "string option"

definition unset :: "string option \<Rightarrow> bool" where
  "unset v = (v = None \<or> v = Some [])"

definition send_disaster_alert_block ::
    "slack_config \<Rightarrow> (nat \<Rightarrow> post_outcome) \<Rightarrow> nat \<Rightarrow> pyerr + bool" where
  "send_disaster_alert_block cfg slack max_retries =
     (if unset (slack_bot_token cfg) then Inr False
      else if unset (channel_name cfg) then Inr False
      else send_loop slack 0 max_retries)"

text \<open>
  One cycle of \<open>main\<close>. What the cycle gets from outside is gathered in a record: the
  time, whether each database call succeeds, the links of the entries fetched, what
  \<open>process_disasters\<close> does on the new entries (an exception, \<open>None\<close>, or the
  summary), and Slack. \<open>main\<close> calls \<open>send_disaster_alert_block\<close> with the default
  of three rounds and does not look at what it returns. The result is the ledger
  after the cycle, and the links \<open>save_sent_entries\<close> was called with (\<open>None\<close> when
  it was not called).
\<close>

record cycle =
  cy_now :: int
  cy_cleanup_ok :: bool
  cy_load_ok :: bool
  cy_save_ok :: bool
  cy_fetched :: "string list"
  cy_summary :: "pyerr + string option"
  cy_config :: slack_config
  cy_slack :: "nat \<Rightarrow> post_outcome"

definition main :: "cycle \<Rightarrow> ledger \<Rightarrow> pyerr + (ledger \<times> string list option)" where
  "main c tbl =
     (let tbl1 = cleanup_old_entries (cy_cleanup_ok c) (cy_now c) tbl;
          sent_entries = load_sent_entries (cy_load_ok c) tbl1;
          new_links = filter (\<lambda>l. l \<notin> sent_entries) (cy_fetched c)
      in if new_links = [] then Inr (tbl1, None)
         else pbind (cy_summary c) (\<lambda>s.
           if s = None \<or> s = Some [] then Inr (tbl1, None)
           else pbind (send_disaster_alert_block (cy_config c) (cy_slack c) 3) (\<lambda>sent.
             Inr (save_sent_entries (cy_save_ok c) (cy_now c) new_links tbl1, Some new_links))))"

section \<open>Notions used in the statements\<close>

text \<open>Whether a value is a dictionary (\<open>isinstance(x, dict)\<close>).\<close>

fun is_dict :: "pyval \<Rightarrow> bool" where
  "is_dict (PDict d) = True"
| "is_dict v = False"

text \<open>
  The details are not a non-empty dictionary, or their alert level is a string (so
  that \<open>.lower()\<close> does not raise on it).
\<close>

definition level_is_text :: "pyval \<Rightarrow> bool" where
  "level_is_text det =
     (case det of
        PDict dd \<Rightarrow> dd = [] \<or> (case dict_get dd ''alert_level'' (PStr []) of
                                 PStr a \<Rightarrow> True | _ \<Rightarrow> False)
      | _ \<Rightarrow> True)"

text \<open>
  The magnitude the USGS rules read: the first match of the pattern in the lower-cased
  title, and the first match in the lower-cased summary only when the title has none.
\<close>

definition usgs_parsed_magnitude :: "string \<Rightarrow> string \<Rightarrow> string option" where
  "usgs_parsed_magnitude title summary =
     (case re_search True magnitude_rx title of
        Some caps \<Rightarrow> Some (group caps ''1'')
      | None \<Rightarrow> map_option (\<lambda>caps. group caps ''1'') (re_search True magnitude_rx summary))"

text \<open>
  The pattern as the specification words it, with the token \<open>m\<close> or \<open>magnitude\<close>
  optional: \<open>(?:^|\s)(?:m|magnitude)?\s*(\d+\.?\d*)\<close>. It serves only to state
  what that wording asks for; the filter uses \<open>magnitude_rx\<close>.
\<close>

definition claimed_magnitude_rx :: rx where
  "claimed_magnitude_rx =
     Seq (Alt Bol (Cls Space))
       (Seq (Opt (Alt (word ''m'') (word ''magnitude'')))
         (Seq (Many Space 0 None)
           (Grp ''1'' (Seq (Many Digit 1 None) (Seq (Opt (Lit CHR ''.'')) (Many Digit 0 None))))))"




section \<open>Inputs used in the examples\<close>

text \<open>An SPC entry with a given title, and details as the extractor returns them.\<close>

definition spc_details :: pyval where
  "spc_details = PDict [(''disaster_type'', PStr ''Tornado''), (''location'', PStr ''Kansas''),
     (''date'', PStr ''2024-05-01''), (''severity'', PNone), (''alert_level'', PStr []),
     (''description'', PStr ''Severe storms'')]"

definition spc_entry :: "string \<Rightarrow> (string \<times> pyval) list" where
  "spc_entry title = [(''title'', PStr title), (''summary'', PStr ''Severe storms possible''),
     (''link'', PStr ''https://www.spc.noaa.gov/products/watch/ww0001.html''),
     (''published'', PStr ''Wed, 01 May 2024 18:00:00 GMT''),
     (''source'', PStr ''SPC Forecast Products''), (''source_type'', PStr ''noaa_spc'')]"

text \<open>
  A GDACS entry with a given title; the details the extractor stores for it when the
  model answers the alert level given; and the member the grouper builds from both.
\<close>

definition gdacs_entry :: "string \<Rightarrow> (string \<times> pyval) list" where
  "gdacs_entry title = [(''title'', PStr title),
     (''summary'', PStr ''Earthquake of magnitude 6.3 near the coast''),
     (''link'', PStr ''https://www.gdacs.org/report.aspx?eventid=1441''),
     (''published'', PStr ''Wed, 01 May 2024 18:00:00 GMT''),
     (''source'', PStr ''GDACS RSS information''), (''source_type'', PStr ''gdacs'')]"

definition gdacs_details :: "pyval \<Rightarrow> pyval" where
  "gdacs_details level = PDict [(''disaster_type'', PStr ''earthquake''), (''location'', PStr ''Chile''),
     (''date'', PStr ''2024-05-01''), (''severity'', PStr ''6.3''), (''alert_level'', level),
     (''description'', PStr ''Earthquake near the coast'')]"

definition gdacs_member :: "string \<Rightarrow> pyval \<Rightarrow> pyval" where
  "gdacs_member title level = PDict [(''title'', PStr title),
     (''summary'', PStr ''Earthquake of magnitude 6.3 near the coast''),
     (''link'', PStr ''https://www.gdacs.org/report.aspx?eventid=1441''),
     (''published'', PStr ''Wed, 01 May 2024 18:00:00 GMT''),
     (''source'', PStr ''GDACS RSS information''),
     (''details'', gdacs_details level)]"

definition link1441 :: string where
  "link1441 = ''https://www.gdacs.org/report.aspx?eventid=1441''"

text \<open>A USGS entry with a given title.\<close>

definition usgs_entry :: "string \<Rightarrow> (string \<times> pyval) list" where
  "usgs_entry title = [(''title'', PStr title),
     (''summary'', PStr ''Time 2024-05-01 18:00:00 UTC, depth 10 km''),
     (''link'', PStr ''https://earthquake.usgs.gov/earthquakes/eventpage/us7000abcd''),
     (''published'', PStr ''2024-05-01T18:00:00Z''),
     (''source'', PStr ''USGS Magnitude 4.5+ Earthquakes''), (''source_type'', PStr ''usgs'')]"

text \<open>
  A cycle with one new entry and a summary, in which Slack answers every call with
  \<open>channel_not_found\<close>.
\<close>

definition failed_send_cycle :: cycle where
  "failed_send_cycle =
     \<lparr>cy_now = 1714586400, cy_cleanup_ok = True, cy_load_ok = True, cy_save_ok = True,
      cy_fetched = [''https://earthquake.usgs.gov/earthquakes/eventpage/us7000abcd''],
      cy_summary = Inr (Some ''### Earthquake (6.5) in Chile on 2024-05-01''),
      cy_config = \<lparr>slack_bot_token = Some ''xoxb-token'', channel_name = Some ''#disaster-alerts''\<rparr>,
      cy_slack = (\<lambda>call. SlackApiError ''channel_not_found'' NoHeader)\<rparr>"

text \<open>
  Two prepared entries; a result of the model for a given id; a model that answers
  for the first entry only; a model that answers with the id of the first entry
  followed by a slash; a model whose every call fails; and an entry whose feed gives
  the date \<open>0000-00-00 00:00:00\<close>.
\<close>

definition quake_prepared :: prepared where
  "quake_prepared =
     \<lparr>p_id = ''https://earthquake.usgs.gov/earthquakes/eventpage/us7000abcd'',
      p_title = PStr ''M 6.5 - Somewhere'',
      p_summary = ''Time 2024-05-01 18:00:00 UTC, depth 10 km'',
      p_source = PStr ''USGS Magnitude 4.5+ Earthquakes'',
      p_source_type = PStr ''usgs'',
      p_published = ''2024-05-01T18:00:00Z''\<rparr>"





definition down_llm :: "nat \<Rightarrow> llm_reply" where
  "down_llm attempt = ApiFailure"

definition zero_date_prepared :: prepared where
  "zero_date_prepared = quake_prepared\<lparr>p_published := ''0000-00-00 00:00:00''\<rparr>"

section \<open>Properties\<close>

subsection \<open>Date normalisation\<close>

lemma try_formats_none:
  "(\<forall>fmt\<in>set fmts. strptime s fmt = None) \<Longrightarrow> try_formats s fmts = None"
  by (induction fmts) simp_all

lemma normalize_date_rec_unknown:
  assumes "\<forall>fmt\<in>set date_formats. strptime s fmt = None"
    and "re_search False date_rx s = None"
  shows "normalize_date_rec (Suc n) (PStr s) = Inr ''Unknown Date''"
  using assms by (simp add: try_formats_none)

lemma recursion_limit_Suc: "recursion_limit = Suc 999"
  by (simp add: recursion_limit_def)

text \<open>
  Claim C8. \<open>normalize_date\<close> maps \<open>2024-12-31T14:00:00Z\<close> to \<open>2024-12-31\<close>,
  \<open>not a date\<close> to \<open>Unknown Date\<close> and \<open>Updated: 2023/12/25 irrelevant text\<close> to
  \<open>2023-12-25\<close>; and every string that none of the ten formats parses and in which
  the date pattern is not found is mapped to \<open>Unknown Date\<close>.
\<close>

theorem normalize_date_examples_and_sentinel:
  "normalize_date (PStr ''2024-12-31T14:00:00Z'') = Inr ''2024-12-31''
   \<and> normalize_date (PStr ''not a date'') = Inr ''Unknown Date''
   \<and> normalize_date (PStr ''Updated: 2023/12/25 irrelevant text'') = Inr ''2023-12-25''
   \<and> (\<forall>s. (\<forall>fmt\<in>set date_formats. strptime s fmt = None)
            \<and> re_search False date_rx s = None
          \<longrightarrow> normalize_date (PStr s) = Inr ''Unknown Date'')"
proof -
  have a: "normalize_date (PStr ''2024-12-31T14:00:00Z'') = Inr ''2024-12-31''"
    by code_simp
  have b: "normalize_date (PStr ''not a date'') = Inr ''Unknown Date''"
    by code_simp
  have c: "normalize_date (PStr ''Updated: 2023/12/25 irrelevant text'') = Inr ''2023-12-25''"
    by code_simp
  have d: "\<forall>s. (\<forall>fmt\<in>set date_formats. strptime s fmt = None)
            \<and> re_search False date_rx s = None
          \<longrightarrow> normalize_date (PStr s) = Inr ''Unknown Date''"
    unfolding normalize_date_def recursion_limit_Suc
    using normalize_date_rec_unknown by blast
  from a b c d show ?thesis by blast
qed

theorem normalize_date_examples_and_sentinel_witness:
  "list_all (\<lambda>fmt. strptime ''no date here 12/2023'' fmt = None) date_formats
   \<and> re_search False date_rx ''no date here 12/2023'' = None
   \<and> normalize_date (PStr ''no date here 12/2023'') = Inr ''Unknown Date''"
proof -
  have h1: "list_all (\<lambda>fmt. strptime ''no date here 12/2023'' fmt = None) date_formats"
    by code_simp
  have h2: "re_search False date_rx ''no date here 12/2023'' = None"
    by code_simp
  from h1 have h1': "\<forall>fmt\<in>set date_formats. strptime ''no date here 12/2023'' fmt = None"
    by (simp add: list_all_iff)
  from normalize_date_examples_and_sentinel h1' h2
  have "normalize_date (PStr ''no date here 12/2023'') = Inr ''Unknown Date''"
    by blast
  with h1 h2 show ?thesis by blast
qed

subsection \<open>The ledger\<close>

lemma links_insert_or_ignore:
  "set (map fst (insert_or_ignore t tbl l)) = insert l (set (map fst tbl))"
  by (auto simp: insert_or_ignore_def)

lemma distinct_insert_or_ignore:
  "distinct (map fst tbl) \<Longrightarrow> distinct (map fst (insert_or_ignore t tbl l))"
  by (auto simp: insert_or_ignore_def)

lemma insert_or_ignore_present:
  "l \<in> set (map fst tbl) \<Longrightarrow> insert_or_ignore t tbl l = tbl"
  by (simp add: insert_or_ignore_def)

lemma one_row_per_link:
  "distinct (map fst tbl) \<Longrightarrow> l \<in> set (map fst tbl) \<Longrightarrow> length (filter (\<lambda>row. fst row = l) tbl) = 1"
proof (induction tbl)
  case Nil
  then show ?case by simp
next
  case (Cons row tbl)
  show ?case
  proof (cases "fst row = l")
    case True
    with Cons.prems have "l \<notin> fst ` set tbl" by auto
    then have "filter (\<lambda>row. fst row = l) tbl = []"
      by (auto simp: filter_empty_conv)
    with True show ?thesis by simp
  next
    case False
    with Cons show ?thesis by auto
  qed
qed

lemma cleanup_keeps_iff:
  assumes "distinct (map fst tbl)" and "(l, ts) \<in> set tbl"
  shows "l \<in> set (map fst (filter (\<lambda>row. \<not> snd row < cutoff) tbl)) \<longleftrightarrow> \<not> ts < cutoff"
proof
  assume "l \<in> set (map fst (filter (\<lambda>row. \<not> snd row < cutoff) tbl))"
  then obtain ts' where in': "(l, ts') \<in> set tbl" and keep: "\<not> ts' < cutoff"
    by auto
  from assms in' have "ts' = ts"
    by (meson eq_key_imp_eq_value)
  with keep show "\<not> ts < cutoff" by simp
next
  assume "\<not> ts < cutoff"
  with assms(2) show "l \<in> set (map fst (filter (\<lambda>row. \<not> snd row < cutoff) tbl))"
    by force
qed

text \<open>
  Claim C9, as amended. On a table whose links are distinct (the primary key), and
  provided the statements of the database calls succeed: after
  \<open>save_sent_entries([L])\<close> the set \<open>load_sent_entries()\<close> returns contains \<open>L\<close>;
  saving \<open>L\<close> again changes nothing and leaves exactly one row for \<open>L\<close>; and
  \<open>cleanup_old_entries\<close> removes a stored \<open>L\<close> exactly when its timestamp is more
  than 30 days (30 times 86400 seconds) before the time of the call. A call whose
  statements fail does not raise either: the error is caught and logged, saving and
  cleaning leave the table as it was, and loading returns the empty set.
\<close>

theorem ledger_save_load_cleanup:
  assumes "distinct (map fst tbl)"
  shows "L \<in> load_sent_entries True (save_sent_entries True t1 [L] tbl)
       \<and> save_sent_entries True t2 [L] (save_sent_entries True t1 [L] tbl)
           = save_sent_entries True t1 [L] tbl
       \<and> length (filter (\<lambda>row. fst row = L)
            (save_sent_entries True t2 [L] (save_sent_entries True t1 [L] tbl))) = 1
       \<and> (\<forall>ts. (L, ts) \<in> set tbl \<longrightarrow>
            (L \<in> load_sent_entries True (cleanup_old_entries True t tbl))
              = (\<not> ts < t - 30 * 86400))
       \<and> save_sent_entries False t1 links tbl = tbl
       \<and> cleanup_old_entries False t tbl = tbl
       \<and> load_sent_entries False tbl = {}"
proof -
  let ?saved = "save_sent_entries True t1 [L] tbl"
  have saved: "?saved = insert_or_ignore t1 tbl L"
    by (simp add: save_sent_entries_def)
  have mem: "L \<in> set (map fst ?saved)"
    unfolding saved links_insert_or_ignore by simp
  have again: "save_sent_entries True t2 [L] ?saved = ?saved"
    using mem by (simp add: save_sent_entries_def insert_or_ignore_present)
  have dist: "distinct (map fst ?saved)"
    unfolding saved using assms by (rule distinct_insert_or_ignore)
  have one: "length (filter (\<lambda>row. fst row = L) ?saved) = 1"
    using dist mem by (rule one_row_per_link)
  have prune: "\<forall>ts. (L, ts) \<in> set tbl \<longrightarrow>
      (L \<in> load_sent_entries True (cleanup_old_entries True t tbl)) = (\<not> ts < t - 30 * 86400)"
    using cleanup_keeps_iff [OF assms]
    by (simp add: load_sent_entries_def cleanup_old_entries_def retention_def)
  have failed: "save_sent_entries False t1 links tbl = tbl"
    "cleanup_old_entries False t tbl = tbl" "load_sent_entries False tbl = {}"
    by (simp_all add: save_sent_entries_def cleanup_old_entries_def load_sent_entries_def)
  from mem again one prune failed show ?thesis
    by (simp add: load_sent_entries_def)
qed

text \<open>
  A witness: a link is saved beside a stored one; the stored one, written at second
  5, is pruned at 30 days and 6 seconds and is still there at 30 days and 5 seconds.
\<close>

theorem ledger_save_load_cleanup_witness:
  "distinct (map fst [(''https://example.org/a'', 5 :: int)])
   \<and> ''https://example.org/b'' \<in> load_sent_entries True
        (save_sent_entries True 9 [''https://example.org/b''] [(''https://example.org/a'', 5)])
   \<and> ''https://example.org/a'' \<notin> load_sent_entries True
        (cleanup_old_entries True (30 * 86400 + 6) [(''https://example.org/a'', 5)])
   \<and> ''https://example.org/a'' \<in> load_sent_entries True
        (cleanup_old_entries True (30 * 86400 + 5) [(''https://example.org/a'', 5)])"
proof -
  have d: "distinct (map fst [(''https://example.org/a'', 5 :: int)])" by simp
  from ledger_save_load_cleanup [OF d, of "''https://example.org/b''" 9 9 "30 * 86400 + 6"]
    ledger_save_load_cleanup [OF d, of "''https://example.org/a''" 9 9 "30 * 86400 + 6"]
    ledger_save_load_cleanup [OF d, of "''https://example.org/a''" 9 9 "30 * 86400 + 5"]
  show ?thesis by simp
qed

text \<open>
  Claim C9 as stated fails: when the statements of \<open>save_sent_entries\<close> fail, the
  error is logged, nothing is written, and a later \<open>load_sent_entries\<close> that
  succeeds does not contain the link.
\<close>

theorem ledger_save_failed_counterexample:
  "''https://example.org/a'' \<notin> load_sent_entries True
      (save_sent_entries False 9 [''https://example.org/a''] [])"
  by (simp add: save_sent_entries_def load_sent_entries_def)

subsection \<open>The entry filter on values that are not entries\<close>

lemma get_lower_non_dict: "\<not> is_dict entry \<Longrightarrow> get_lower entry k = Inr []"
  by (cases entry) (simp_all add: get_lower_def)

text \<open>
  Claim C4, as amended. \<open>should_filter_entry\<close> returns true for \<open>None\<close>; for every
  other value that is not a dictionary it returns false, without raising.
\<close>

theorem should_filter_entry_none_and_non_dict:
  "should_filter_entry PNone det = Inr True
   \<and> (entry \<noteq> PNone \<and> \<not> is_dict entry \<longrightarrow> should_filter_entry entry det = Inr False)"
  by (simp add: should_filter_entry_def get_lower_non_dict pbind_def)

text \<open>A witness: a list.\<close>

theorem should_filter_entry_none_and_non_dict_witness:
  "PList [PStr ''x''] \<noteq> PNone \<and> \<not> is_dict (PList [PStr ''x''])
   \<and> should_filter_entry (PList [PStr ''x'']) PNone = Inr False"
  using should_filter_entry_none_and_non_dict [of PNone "PList [PStr ''x'']"] by simp

text \<open>Claim C4 as stated fails: a string passed as the entry is not filtered.\<close>

theorem should_filter_entry_non_dict_counterexample:
  "\<not> is_dict (PStr ''not an entry'')
   \<and> should_filter_entry (PStr ''not an entry'') PNone = Inr False"
  by (simp add: should_filter_entry_def get_lower_def pbind_def)

text \<open>
  A dictionary is another matter: \<open>fetch_rss_feeds\<close> stores the source type
  \<open>None\<close> for a feed it does not recognise, and on such an entry the filter raises
  at \<open>.lower()\<close>.
\<close>

lemma should_filter_entry_unclassified_raises:
  "map_of d ''source_type'' = Some PNone \<Longrightarrow> should_filter_entry (PDict d) det = Inl AttributeError"
  by (simp add: should_filter_entry_def get_lower_def dict_get_def pbind_def)

subsection \<open>The group key\<close>

text \<open>
  Claim C6, as amended. The group key is a function of the extracted details, of the
  entry's source type and, for an entry of source type \<open>noaa_spc\<close> only, of its
  title: two entries that agree on these get the same key (or the same exception) for
  the same details. No other field of the entry takes part.
\<close>

theorem group_key_inputs:
  "dict_get d1 ''source_type'' PNone = dict_get d2 ''source_type'' PNone
   \<and> (dict_get d1 ''source_type'' PNone = PStr ''noaa_spc''
        \<longrightarrow> dict_get d1 ''title'' (PStr []) = dict_get d2 ''title'' (PStr []))
   \<longrightarrow> group_key d1 details = group_key d2 details"
proof (intro impI, elim conjE)
  assume st: "dict_get d1 ''source_type'' PNone = dict_get d2 ''source_type'' PNone"
    and ti: "dict_get d1 ''source_type'' PNone = PStr ''noaa_spc''
        \<longrightarrow> dict_get d1 ''title'' (PStr []) = dict_get d2 ''title'' (PStr [])"
  show "group_key d1 details = group_key d2 details"
  proof (cases "dict_get d1 ''source_type'' PNone = PStr ''noaa_spc''")
    case True
    with st ti have "dict_get d2 ''source_type'' PNone = PStr ''noaa_spc''"
      and "dict_get d2 ''title'' (PStr []) = dict_get d1 ''title'' (PStr [])"
      by simp_all
    with True show ?thesis by (cases details) (simp_all add: group_key_def)
  next
    case False
    with st have "dict_get d2 ''source_type'' PNone \<noteq> PStr ''noaa_spc''"
      and "dict_get d2 ''source_type'' PNone = dict_get d1 ''source_type'' PNone"
      by simp_all
    with False show ?thesis by (cases details) (simp_all add: group_key_def)
  qed
qed

text \<open>A witness: two USGS entries with different titles and the same details.\<close>

theorem group_key_inputs_witness:
  "dict_get [(''source_type'', PStr ''usgs''), (''title'', PStr ''M 6.1 - Chile'')] ''source_type'' PNone
     = dict_get [(''title'', PStr ''M 6.1 - Peru''), (''source_type'', PStr ''usgs'')] ''source_type'' PNone
   \<and> dict_get [(''source_type'', PStr ''usgs''), (''title'', PStr ''M 6.1 - Chile'')] ''source_type'' PNone
        \<noteq> PStr ''noaa_spc''
   \<and> group_key [(''source_type'', PStr ''usgs''), (''title'', PStr ''M 6.1 - Chile'')] spc_details
     = group_key [(''title'', PStr ''M 6.1 - Peru''), (''source_type'', PStr ''usgs'')] spc_details"
  using group_key_inputs [of "[(''source_type'', PStr ''usgs''), (''title'', PStr ''M 6.1 - Chile'')]"
      "[(''title'', PStr ''M 6.1 - Peru''), (''source_type'', PStr ''usgs'')]" spc_details]
  by (simp add: dict_get_def)

text \<open>
  Claim C6 as stated fails: two SPC entries with the same details and the same source
  type, both kept by the filter, get different keys because their titles differ.
\<close>

theorem group_key_title_counterexample:
  "dict_get (spc_entry ''Updated SPC MD 1234'') ''source_type'' PNone
     = dict_get (spc_entry ''Updated SPC MD 5678'') ''source_type'' PNone
   \<and> should_filter_entry (PDict (spc_entry ''Updated SPC MD 1234'')) spc_details = Inr False
   \<and> should_filter_entry (PDict (spc_entry ''Updated SPC MD 5678'')) spc_details = Inr False
   \<and> group_key (spc_entry ''Updated SPC MD 1234'') spc_details
       = Inr ''Severe Weather Discussion (MD 1234)''
   \<and> group_key (spc_entry ''Updated SPC MD 5678'') spc_details
       = Inr ''Severe Weather Discussion (MD 5678)''"
  by code_simp

text \<open>
  Claim C7, as amended. For an entry of source type \<open>noaa_spc\<close> whose lower-cased
  title contains \<open>spc md\<close> and has a match of \<open>md\s+(\d+)\<close>, the key is
  \<open>Severe Weather Discussion (MD n)\<close>, \<open>n\<close> being the digits of the first match,
  whatever the details say.
\<close>

theorem group_key_md_override:
  assumes "is_dict details"
    and "dict_get d ''source_type'' PNone = PStr ''noaa_spc''"
    and "dict_get d ''title'' (PStr []) = PStr title"
    and "contains ''spc md'' (lower title)"
    and "re_search False md_rx (lower title) = Some caps"
  shows "group_key d details = Inr (''Severe Weather Discussion (MD '' @ group caps ''1'' @ '')'')"
  using assms by (cases details) (simp_all add: group_key_def pbind_def)

text \<open>A witness: the title \<open>Updated SPC MD 1234\<close>.\<close>

theorem group_key_md_override_witness:
  "is_dict spc_details
   \<and> dict_get (spc_entry ''Updated SPC MD 1234'') ''source_type'' PNone = PStr ''noaa_spc''
   \<and> dict_get (spc_entry ''Updated SPC MD 1234'') ''title'' (PStr []) = PStr ''Updated SPC MD 1234''
   \<and> contains ''spc md'' (lower ''Updated SPC MD 1234'')
   \<and> re_search False md_rx (lower ''Updated SPC MD 1234'') = Some [(''1'', ''1234'')]
   \<and> group_key (spc_entry ''Updated SPC MD 1234'') spc_details
        = Inr ''Severe Weather Discussion (MD 1234)''"
proof -
  have a: "is_dict spc_details" by (simp add: spc_details_def)
  have b: "dict_get (spc_entry ''Updated SPC MD 1234'') ''source_type'' PNone = PStr ''noaa_spc''"
    by (simp add: spc_entry_def dict_get_def)
  have c: "dict_get (spc_entry ''Updated SPC MD 1234'') ''title'' (PStr []) = PStr ''Updated SPC MD 1234''"
    by (simp add: spc_entry_def dict_get_def)
  have d: "contains ''spc md'' (lower ''Updated SPC MD 1234'')" by code_simp
  have e: "re_search False md_rx (lower ''Updated SPC MD 1234'') = Some [(''1'', ''1234'')]"
    by code_simp
  from group_key_md_override [OF a b c d e] a b c d e show ?thesis
    by (simp add: group_def)
qed

text \<open>
  Claim C7 as stated fails: a title that matches the pattern \<open>MD number\<close> but does
  not contain \<open>spc md\<close> keeps the default key.
\<close>

theorem group_key_md_without_spc_counterexample:
  "dict_get (spc_entry ''MD 1234 concerning severe thunderstorm watch'') ''source_type'' PNone
      = PStr ''noaa_spc''
   \<and> re_search False md_rx (lower ''MD 1234 concerning severe thunderstorm watch'')
      = Some [(''1'', ''1234'')]
   \<and> should_filter_entry (PDict (spc_entry ''MD 1234 concerning severe thunderstorm watch'')) PNone
      = Inr False
   \<and> should_filter_entry (PDict (spc_entry ''MD 1234 concerning severe thunderstorm watch'')) spc_details
      = Inr False
   \<and> group_key (spc_entry ''MD 1234 concerning severe thunderstorm watch'') spc_details
      = Inr ''Tornado in Kansas on 2024-05-01''"
  by code_simp

subsection \<open>The filter inside the grouping loop\<close>

lemma map_of_group_append:
  "map_of (group_append g key x) key
     = Some ((case map_of g key of None \<Rightarrow> [] | Some xs \<Rightarrow> xs) @ [x])"
  by (induction g key x rule: group_append.induct) auto

text \<open>
  Claim C10, as amended. When the call of \<open>should_filter_entry\<close> with the details
  raises, for an entry whose details were found, the exception is caught and the round
  goes on exactly as for an entry the filter keeps: it builds the key and the member.
  When neither of these raises, the member is appended to the group of the key, after
  the members the group had.
\<close>

theorem group_entry_filter_error_keeps:
  assumes "should_filter_entry (PDict d) details = Inl e"
    and "dict_key (dict_get d ''link'' (PStr [])) = Inr k"
    and "map_of all_details k = Some details"
    and "truthy details"
  shows "group_entry all_details (PDict d) grouped = keep_entry d details grouped
       \<and> (group_key d details = Inr key \<and> group_member d details = Inr member
            \<longrightarrow> group_entry all_details (PDict d) grouped = Inr (group_append grouped key member)
              \<and> map_of (group_append grouped key member) key
                  = Some ((case map_of grouped key of None \<Rightarrow> [] | Some xs \<Rightarrow> xs) @ [member]))"
  using assms by (simp add: group_entry_def keep_entry_def pbind_def map_of_group_append)

text \<open>
  A witness: the model answers \<open>null\<close> for the alert level of a GDACS entry, the
  filter raises on it, and the entry ends up in its group.
\<close>

theorem group_entry_filter_error_keeps_witness:
  "should_filter_entry (PDict (gdacs_entry ''Orange earthquake alert in Chile'')) (gdacs_details PNone)
     = Inl AttributeError
   \<and> truthy (gdacs_details PNone)
   \<and> group_key (gdacs_entry ''Orange earthquake alert in Chile'') (gdacs_details PNone)
     = Inr ''earthquake (6.3) in Chile on 2024-05-01''
   \<and> group_entry [(PStr link1441, gdacs_details PNone)]
        (PDict (gdacs_entry ''Orange earthquake alert in Chile'')) []
     = Inr [(''earthquake (6.3) in Chile on 2024-05-01'',
             [gdacs_member ''Orange earthquake alert in Chile'' PNone])]"
proof -
  let ?d = "gdacs_entry ''Orange earthquake alert in Chile''"
  let ?det = "gdacs_details PNone"
  have a: "should_filter_entry (PDict ?d) ?det = Inl AttributeError" by code_simp
  have b: "dict_key (dict_get ?d ''link'' (PStr [])) = Inr (PStr link1441)" by code_simp
  have c: "map_of [(PStr link1441, ?det)] (PStr link1441) = Some ?det" by simp
  have d: "truthy ?det" by (simp add: gdacs_details_def)
  have k: "group_key ?d ?det = Inr ''earthquake (6.3) in Chile on 2024-05-01''" by code_simp
  have m: "group_member ?d ?det = Inr (gdacs_member ''Orange earthquake alert in Chile'' PNone)"
    by code_simp
  from group_entry_filter_error_keeps [OF a b c d, of "[]"
      "''earthquake (6.3) in Chile on 2024-05-01''"
      "gdacs_member ''Orange earthquake alert in Chile'' PNone", THEN conjunct2] k m
  have "group_entry [(PStr link1441, ?det)] (PDict ?d) []
     = Inr [(''earthquake (6.3) in Chile on 2024-05-01'',
             [gdacs_member ''Orange earthquake alert in Chile'' PNone])]"
    by simp
  with a d k show ?thesis by simp
qed

text \<open>
  Claim C10 as stated fails: when the model answers the number 2 for the alert level,
  the filter raises, the exception is caught, and the construction of the key then
  raises in \<open>capitalize\<close>; the entry is not appended and the loop ends with that
  exception.
\<close>

theorem group_entry_filter_error_crash_counterexample:
  "should_filter_entry (PDict (gdacs_entry ''Orange earthquake alert in Chile'')) (gdacs_details (PInt 2))
     = Inl AttributeError
   \<and> group_entry [(PStr link1441, gdacs_details (PInt 2))]
        (PDict (gdacs_entry ''Orange earthquake alert in Chile'')) []
     = Inl AttributeError"
  by code_simp

subsection \<open>The USGS threshold\<close>

text \<open>
  Claim C5, as amended. For a dictionary entry of source type \<open>usgs\<close> whose title,
  summary and link are strings, let the parsed magnitude be the first match of the
  pattern -- the token \<open>m\<close> or \<open>magnitude\<close>, which is required, at the start of the
  text or after a whitespace character, then optional whitespace and a decimal
  number -- in the title, or in the summary when the title has no match. If its
  floating-point value is below 5.8 the filter returns true, whatever the details; if
  it is not below 5.8 and no details are given, the filter returns false.
\<close>

theorem usgs_magnitude_threshold:
  assumes "get_lower (PDict d) ''source_type'' = Inr ''usgs''"
    and "get_lower (PDict d) ''title'' = Inr title"
    and "get_lower (PDict d) ''summary'' = Inr summary"
    and "get_lower (PDict d) ''link'' = Inr link"
    and "usgs_parsed_magnitude title summary = Some g"
  shows "(float_lt_5_8 g \<longrightarrow> should_filter_entry (PDict d) details = Inr True)
       \<and> (\<not> float_lt_5_8 g \<longrightarrow> should_filter_entry (PDict d) PNone = Inr False)"
  using assms
  by (auto simp: should_filter_entry_def usgs_rules_def usgs_parsed_magnitude_def pbind_def
        low_extracted_magnitude_def split: option.splits)

text \<open>A witness: \<open>M 3.0 - Elsewhere\<close> is filtered and \<open>M 6.5 - Somewhere\<close> is kept.\<close>

theorem usgs_magnitude_threshold_witness:
  "get_lower (PDict (usgs_entry ''M 3.0 - Elsewhere'')) ''source_type'' = Inr ''usgs''
   \<and> usgs_parsed_magnitude ''m 3.0 - elsewhere'' ''time 2024-05-01 18:00:00 utc, depth 10 km'' = Some ''3.0''
   \<and> float_lt_5_8 ''3.0''
   \<and> should_filter_entry (PDict (usgs_entry ''M 3.0 - Elsewhere'')) PNone = Inr True
   \<and> get_lower (PDict (usgs_entry ''M 6.5 - Somewhere'')) ''source_type'' = Inr ''usgs''
   \<and> usgs_parsed_magnitude ''m 6.5 - somewhere'' ''time 2024-05-01 18:00:00 utc, depth 10 km'' = Some ''6.5''
   \<and> \<not> float_lt_5_8 ''6.5''
   \<and> should_filter_entry (PDict (usgs_entry ''M 6.5 - Somewhere'')) PNone = Inr False"
proof -
  let ?s = "''time 2024-05-01 18:00:00 utc, depth 10 km''"
  let ?l = "''https://earthquake.usgs.gov/earthquakes/eventpage/us7000abcd''"
  have a1: "get_lower (PDict (usgs_entry ''M 3.0 - Elsewhere'')) ''source_type'' = Inr ''usgs''"
    by code_simp
  have a2: "get_lower (PDict (usgs_entry ''M 3.0 - Elsewhere'')) ''title'' = Inr ''m 3.0 - elsewhere''"
    by code_simp
  have a3: "get_lower (PDict (usgs_entry ''M 3.0 - Elsewhere'')) ''summary'' = Inr ?s"
    by code_simp
  have a4: "get_lower (PDict (usgs_entry ''M 3.0 - Elsewhere'')) ''link'' = Inr ?l"
    by code_simp
  have a5: "usgs_parsed_magnitude ''m 3.0 - elsewhere'' ?s = Some ''3.0''" by code_simp
  have a6: "float_lt_5_8 ''3.0''" by code_simp
  have b1: "get_lower (PDict (usgs_entry ''M 6.5 - Somewhere'')) ''source_type'' = Inr ''usgs''"
    by code_simp
  have b2: "get_lower (PDict (usgs_entry ''M 6.5 - Somewhere'')) ''title'' = Inr ''m 6.5 - somewhere''"
    by code_simp
  have b3: "get_lower (PDict (usgs_entry ''M 6.5 - Somewhere'')) ''summary'' = Inr ?s"
    by code_simp
  have b4: "get_lower (PDict (usgs_entry ''M 6.5 - Somewhere'')) ''link'' = Inr ?l"
    by code_simp
  have b5: "usgs_parsed_magnitude ''m 6.5 - somewhere'' ?s = Some ''6.5''" by code_simp
  have b6: "\<not> float_lt_5_8 ''6.5''" by code_simp
  from usgs_magnitude_threshold [OF a1 a2 a3 a4 a5, of PNone] a6
  have r1: "should_filter_entry (PDict (usgs_entry ''M 3.0 - Elsewhere'')) PNone = Inr True"
    by simp
  from usgs_magnitude_threshold [OF b1 b2 b3 b4 b5, of PNone] b6
  have r2: "should_filter_entry (PDict (usgs_entry ''M 6.5 - Somewhere'')) PNone = Inr False"
    by simp
  from a1 a5 a6 r1 b1 b5 b6 r2 show ?thesis by simp
qed

text \<open>
  Claim C5 as stated fails: the title \<open>5.2 - 14 km SSW of Somewhere\<close> holds a decimal
  number below 5.8 without the token, which the wording of the claim makes optional,
  and the entry is not filtered.
\<close>

theorem usgs_magnitude_without_token_counterexample:
  "get_lower (PDict (usgs_entry ''5.2 - 14 km SSW of Somewhere'')) ''source_type'' = Inr ''usgs''
   \<and> re_search True claimed_magnitude_rx ''5.2 - 14 km ssw of somewhere'' = Some [(''1'', ''5.2'')]
   \<and> float_lt_5_8 ''5.2''
   \<and> should_filter_entry (PDict (usgs_entry ''5.2 - 14 km SSW of Somewhere'')) PNone = Inr False"
  by code_simp

subsection \<open>The filter with and without details\<close>

text \<open>
  Details never turn a true into a false: when the filter returns true without
  details, the call with details returns true or raises \<open>AttributeError\<close>, and it
  returns true when the alert level of the details is a string.
\<close>

lemma extracted_level_green_none: "extracted_level_green PNone = Inr False"
  by (simp add: extracted_level_green_def)

lemma low_extracted_magnitude_none: "low_extracted_magnitude below PNone = Inr False"
  by (simp add: low_extracted_magnitude_def)

lemma extracted_level_green_cases:
  "extracted_level_green det = Inr True \<or> extracted_level_green det = Inr False
   \<or> extracted_level_green det = Inl AttributeError"
  by (auto simp: extracted_level_green_def split: pyval.splits)

lemma low_extracted_magnitude_cases:
  "low_extracted_magnitude below det = Inr True \<or> low_extracted_magnitude below det = Inr False
   \<or> low_extracted_magnitude below det = Inl AttributeError"
  by (auto simp: low_extracted_magnitude_def split: pyval.splits)

lemma gdacs_rules_never_reversed:
  assumes "gdacs_rules d PNone title summary = Inr True"
  shows "gdacs_rules d det title summary = Inr True
       \<or> gdacs_rules d det title summary = Inl AttributeError"
  using assms extracted_level_green_cases [of det] low_extracted_magnitude_cases [of float_lt_6_0 det]
  by (auto simp: gdacs_rules_def pbind_def extracted_level_green_none low_extracted_magnitude_none
      split: if_splits sum.splits)

lemma usgs_rules_never_reversed:
  assumes "usgs_rules PNone title summary = Inr True"
  shows "usgs_rules det title summary = Inr True"
  using assms
  by (auto simp: usgs_rules_def low_extracted_magnitude_none split: option.splits if_splits)

lemma should_filter_entry_never_returns_false_after_true:
  assumes "should_filter_entry entry PNone = Inr True"
  shows "should_filter_entry entry det = Inr True
       \<or> should_filter_entry entry det = Inl AttributeError"
proof (cases entry)
  case (PDict d)
  from assms PDict obtain st ti su li where g: "get_lower entry ''source_type'' = Inr st"
    "get_lower entry ''title'' = Inr ti" "get_lower entry ''summary'' = Inr su"
    "get_lower entry ''link'' = Inr li"
    by (auto simp: should_filter_entry_def pbind_def split: sum.splits)
  with assms PDict show ?thesis
    using gdacs_rules_never_reversed [of d ti su det] usgs_rules_never_reversed [of ti su det]
    by (auto simp: should_filter_entry_def pbind_def split: if_splits)
qed (use assms in \<open>simp_all add: should_filter_entry_def get_lower_def pbind_def\<close>)

lemma extracted_level_green_text:
  "level_is_text det \<Longrightarrow> extracted_level_green det = Inr True \<or> extracted_level_green det = Inr False"
  by (auto simp: level_is_text_def extracted_level_green_def split: pyval.splits)

lemma gdacs_rules_text_level:
  assumes "gdacs_rules d PNone title summary = Inr True" and "level_is_text det"
  shows "gdacs_rules d det title summary = Inr True"
  using assms(1) extracted_level_green_text [OF assms(2)]
  by (auto simp: gdacs_rules_def pbind_def extracted_level_green_none low_extracted_magnitude_none
      split: if_splits sum.splits)

lemma should_filter_entry_text_level:
  assumes "should_filter_entry entry PNone = Inr True" and "level_is_text det"
  shows "should_filter_entry entry det = Inr True"
proof (cases entry)
  case (PDict d)
  from assms(1) PDict obtain st ti su li where g: "get_lower entry ''source_type'' = Inr st"
    "get_lower entry ''title'' = Inr ti" "get_lower entry ''summary'' = Inr su"
    "get_lower entry ''link'' = Inr li"
    by (auto simp: should_filter_entry_def pbind_def split: sum.splits)
  with assms PDict show ?thesis
    using gdacs_rules_text_level [of d ti su det] usgs_rules_never_reversed [of ti su det]
    by (auto simp: should_filter_entry_def pbind_def split: if_splits)
qed (use assms in \<open>simp_all add: should_filter_entry_def get_lower_def pbind_def\<close>)

lemma green_quake_filtered:
  "should_filter_entry (PDict (gdacs_entry ''M 5.1 Green earthquake in Chile'')) PNone = Inr True"
  by code_simp

text \<open>
  Claim C3, as amended. The filter is a function of its two arguments, so two calls
  with the same arguments give the same result. If the call without details returns
  true, then for every details value the call with details returns true or raises
  \<open>AttributeError\<close>; it never returns false, and it returns true whenever the
  details are not a non-empty dictionary or their alert level is a string.
\<close>

theorem should_filter_entry_details_monotone:
  assumes "should_filter_entry entry PNone = Inr True"
  shows "(level_is_text det \<longrightarrow> should_filter_entry entry det = Inr True)
       \<and> (should_filter_entry entry det = Inr True
            \<or> should_filter_entry entry det = Inl AttributeError)"
  using should_filter_entry_text_level [OF assms]
    should_filter_entry_never_returns_false_after_true [OF assms]
  by blast

text \<open>
  A witness: a GDACS entry filtered for the words \<open>green earthquake\<close> in its title
  stays filtered with details whose alert level is \<open>Orange\<close>.
\<close>

theorem should_filter_entry_details_monotone_witness:
  "should_filter_entry (PDict (gdacs_entry ''M 5.1 Green earthquake in Chile'')) PNone = Inr True
   \<and> level_is_text (gdacs_details (PStr ''Orange''))
   \<and> should_filter_entry (PDict (gdacs_entry ''M 5.1 Green earthquake in Chile''))
        (gdacs_details (PStr ''Orange'')) = Inr True"
proof -
  have l: "level_is_text (gdacs_details (PStr ''Orange''))"
    by (simp add: level_is_text_def gdacs_details_def dict_get_def)
  from should_filter_entry_details_monotone [OF green_quake_filtered,
      of "gdacs_details (PStr ''Orange'')"] l green_quake_filtered
  show ?thesis by simp
qed

text \<open>
  Claim C3 as stated fails: for the same entry and details whose alert level is
  \<open>None\<close> (what the extractor stores when the model answers \<open>null\<close>), the call
  with details does not return true; the rule on the extracted level runs before the
  rule on the title and raises \<open>AttributeError\<close>.
\<close>

theorem should_filter_entry_details_raise_counterexample:
  "should_filter_entry (PDict (gdacs_entry ''M 5.1 Green earthquake in Chile'')) PNone = Inr True
   \<and> should_filter_entry (PDict (gdacs_entry ''M 5.1 Green earthquake in Chile''))
        (gdacs_details PNone) = Inl AttributeError"
proof -
  have "should_filter_entry (PDict (gdacs_entry ''M 5.1 Green earthquake in Chile''))
        (gdacs_details PNone) = Inl AttributeError"
    by code_simp
  with green_quake_filtered show ?thesis by simp
qed

text \<open>
  \<open>group_disasters\<close> itself never makes that second call: it calls the filter with
  details only on entries its first pass kept, for which the call without details
  returned false, and the entry above does not pass the first pass.
\<close>

lemma initial_filtered_kept:
  "initial_filtered ds = Inr kept \<Longrightarrow> d \<in> set kept \<Longrightarrow> should_filter_entry d PNone = Inr False"
proof (induction ds arbitrary: kept)
  case Nil
  then show ?case by simp
next
  case (Cons x ds)
  from Cons.prems(1) obtain f k where f: "should_filter_entry x PNone = Inr f"
    and k: "initial_filtered ds = Inr k" and kept: "kept = (if f then k else x # k)"
    by (auto simp: pbind_def split: sum.splits)
  show ?case
  proof (cases "d \<in> set k")
    case True
    from Cons.IH [OF k True] show ?thesis .
  next
    case False
    with Cons.prems(2) kept have "d = x" and "\<not> f" by (auto split: if_splits)
    with f show ?thesis by simp
  qed
qed

lemma green_quake_stops_at_first_pass:
  "initial_filtered [PDict (gdacs_entry ''M 5.1 Green earthquake in Chile'')] = Inr []"
  by (simp add: green_quake_filtered pbind_def)

subsection \<open>The cycle\<close>

lemma main_ignores_send_result:
  assumes "filter (\<lambda>l. l \<notin> load_sent_entries (cy_load_ok c)
              (cleanup_old_entries (cy_cleanup_ok c) (cy_now c) tbl)) (cy_fetched c) = new_links"
    and "new_links \<noteq> []"
    and "cy_summary c = Inr (Some s)" and "s \<noteq> []"
    and "send_disaster_alert_block (cy_config c) (cy_slack c) 3 = Inr sent"
  shows "main c tbl
     = Inr (save_sent_entries (cy_save_ok c) (cy_now c) new_links
              (cleanup_old_entries (cy_cleanup_ok c) (cy_now c) tbl), Some new_links)"
  using assms by (simp add: main_def pbind_def Let_def)

text \<open>
  Claim C2, at the input where the code breaks it. In a cycle with one new entry and a
  summary, Slack answers \<open>channel_not_found\<close>: \<open>send_disaster_alert_block\<close>
  returns false, and \<open>main\<close> still calls \<open>save_sent_entries\<close> with the link of
  the entry, which is in the ledger after the cycle.
\<close>

theorem main_saves_after_failed_send:
  "send_disaster_alert_block (cy_config failed_send_cycle) (cy_slack failed_send_cycle) 3 = Inr False
   \<and> main failed_send_cycle []
       = Inr ([(''https://earthquake.usgs.gov/earthquakes/eventpage/us7000abcd'', 1714586400)],
              Some [''https://earthquake.usgs.gov/earthquakes/eventpage/us7000abcd''])"
  by code_simp

subsection \<open>The detail extractor\<close>






















text \<open>
  The fallback after the retries calls \<open>normalize_date\<close> outside every handler. On a
  published field in which the date pattern finds a text that no format parses, such
  as \<open>0000-00-00\<close>, \<open>normalize_date\<close> calls itself on that same text until the
  interpreter's recursion limit, and the \<open>RecursionError\<close> leaves
  \<open>extract_details_in_batch\<close>.
\<close>

lemma normalize_date_rec_loops:
  assumes "s \<noteq> []" and "try_formats s date_formats = None"
    and "re_search False date_rx s = Some caps"
    and "replace_char CHR ''/'' ''-'' (group caps ''1'') = s"
  shows "normalize_date_rec n (PStr s) = Inl RecursionError"
  by (induction n) (simp_all add: assms)

lemma normalize_date_zero_date:
  "normalize_date (PStr ''0000-00-00 00:00:00'') = Inl RecursionError"
proof -
  have a: "try_formats ''0000-00-00 00:00:00'' date_formats = None" by code_simp
  have b: "re_search False date_rx ''0000-00-00 00:00:00'' = Some [(''1'', ''0000-00-00'')]"
    by code_simp
  have c: "try_formats ''0000-00-00'' date_formats = None" by code_simp
  have d: "re_search False date_rx ''0000-00-00'' = Some [(''1'', ''0000-00-00'')]"
    by code_simp
  have e: "replace_char CHR ''/'' ''-'' (group [(''1'', ''0000-00-00'')] ''1'') = ''0000-00-00''"
    by code_simp
  have inner: "normalize_date_rec n (PStr ''0000-00-00'') = Inl RecursionError" for n
    using c d e by (intro normalize_date_rec_loops) simp_all
  have outer: "normalize_date_rec (Suc n) (PStr ''0000-00-00 00:00:00'') = Inl RecursionError" for n
    using a b e inner [of n] by simp
  show ?thesis
    unfolding normalize_date_def recursion_limit_Suc by (rule outer)
qed

lemma extract_details_in_batch_recursion_error:
  "extract_details_in_batch down_llm 2 [zero_date_prepared] = Inl RecursionError"
proof -
  have "attempts down_llm [zero_date_prepared] 1 2 = None"
    by (simp add: numeral_2_eq_2 down_llm_def)
  moreover have "fallback_record zero_date_prepared = Inl RecursionError"
    by (simp add: fallback_record_def zero_date_prepared_def normalize_date_zero_date pbind_def)
  ultimately show ?thesis
    by (simp add: extract_details_in_batch_def pbind_def)
qed

end
